theory Spec2Isabelle
  imports Complex_Main
begin

section \<open>Strings\<close>

text \<open>
  A JavaScript string is modelled as a \<^typ>\<open>string\<close>: a list of characters, one per code
  unit, with code units restricted to the range 0..255.
\<close>

text \<open>\<^verbatim>\<open>Array.prototype.join\<close> on an array of strings.\<close>

fun join_with :: "string \<Rightarrow> string list \<Rightarrow> string" where
  "join_with sep [] = []"
| "join_with sep [x] = x"
| "join_with sep (x # y # ys) = x @ sep @ join_with sep (y # ys)"

text \<open>\<^verbatim>\<open>String.prototype.startsWith\<close>: does \<open>s\<close> begin with \<open>p\<close>?\<close>

fun starts_with :: "string \<Rightarrow> string \<Rightarrow> bool" where
  "starts_with [] s = True"
| "starts_with (p # ps) [] = False"
| "starts_with (p # ps) (c # cs) = (p = c \<and> starts_with ps cs)"

section \<open>Azure Function resource (fx-core/src/component/resource/azureFunction.ts)\<close>

subsection \<open>The runtime's \<^verbatim>\<open>path.join\<close>\<close>

text \<open>
  \<^verbatim>\<open>path.join\<close> belongs to the Node.js runtime. Its POSIX flavour is modelled here as the
  runtime documents and implements it: zero-length arguments are ignored, the others are
  joined with \<^verbatim>\<open>/\<close> and the result is normalised; a zero-length result is replaced by
  \<^verbatim>\<open>.\<close>. The normalisation works on the segments between separators instead of on
  single characters.
\<close>

fun split_on :: "char \<Rightarrow> string \<Rightarrow> string list" where
  "split_on sep [] = [[]]"
| "split_on sep (c # cs) =
     (if c = sep then [] # split_on sep cs
      else (case split_on sep cs of
              [] \<Rightarrow> [[c]]
            | s # ss \<Rightarrow> (c # s) # ss))"

fun normalize_segments :: "bool \<Rightarrow> string list \<Rightarrow> string list \<Rightarrow> string list" where
  "normalize_segments allowAboveRoot res [] = res"
| "normalize_segments allowAboveRoot res (seg # segs) =
     (if seg = [] \<or> seg = ''.'' then normalize_segments allowAboveRoot res segs
      else if seg = ''..'' then
        (if res \<noteq> [] \<and> last res \<noteq> ''..''
           then normalize_segments allowAboveRoot (butlast res) segs
         else if allowAboveRoot
           then normalize_segments allowAboveRoot (res @ [''..'']) segs
         else normalize_segments allowAboveRoot res segs)
      else normalize_segments allowAboveRoot (res @ [seg]) segs)"

definition normalizeString :: "string \<Rightarrow> bool \<Rightarrow> string" where
  "normalizeString path allowAboveRoot =
     join_with ''/'' (normalize_segments allowAboveRoot [] (split_on CHR ''/'' path))"

definition normalize :: "string \<Rightarrow> string" where
  "normalize path =
     (if path = [] then ''.''
      else
        let isAbsolute = (hd path = CHR ''/'');
            trailingSeparator = (last path = CHR ''/'');
            p = normalizeString path (\<not> isAbsolute)
        in if p = [] then
             (if isAbsolute then ''/'' else if trailingSeparator then ''./'' else ''.'')
           else
             let p' = (if trailingSeparator then p @ ''/'' else p)
             in if isAbsolute then ''/'' @ p' else p')"

definition path_join :: "string list \<Rightarrow> string" where
  "path_join args =
     (let joined = filter (\<lambda>arg. arg \<noteq> []) args
      in if joined = [] then ''.'' else normalize (join_with ''/'' joined))"

subsection \<open>Data\<close>

datatype error =
    PreconditionError string "string list"
  | PackDirectoryExistenceError
  | SomethingMissing string
  | TypeError
  | ExternalError string

record Effect =
  effect_type :: string
  effect_name :: string
  remarks :: string

record InputsWithProjectPath =
  projectPath :: string
  folder :: string

text \<open>
  The part of the provisioning context that the action reads: \<^verbatim>\<open>ctx.envInfo.state\<close>, a
  dictionary from resource names to dictionaries of provisioning outputs, and the token
  provider, which is only handed on.
\<close>

record 'tp ProvisionContextV3 =
  envInfo_state :: "string \<rightharpoonup> (string \<rightharpoonup> string)"
  tokenProvider :: 'tp

text \<open>
  What the action does to the outside world, in order: lines written to the log, the
  probe of the file system, the zipping of a folder and the call of the deployment API.
\<close>

datatype 'tp deploy_event =
    LogInfo string
  | PathExists string
  | ZipFolder string string
  | AzureWebSiteDeploy string 'tp string

text \<open>
  The collaborators of the action that are not part of this file: the message table, the
  file system, \<^verbatim>\<open>utils.zipFolderAsync\<close> and \<^verbatim>\<open>azureWebSiteDeploy\<close>. The last two may
  throw; what they throw is wrapped in \<^const>\<open>ExternalError\<close>.
\<close>

record 'tp deploy_env =
  Messages_DeployingBot :: string
  Messages_WorkingDirIsMissing :: string
  fs_pathExists :: "string \<Rightarrow> bool"
  zipFolderAsync :: "string \<Rightarrow> string \<Rightarrow> string + string"
  azureWebSiteDeploy :: "string \<Rightarrow> 'tp \<Rightarrow> string \<Rightarrow> string option"

definition resource_name :: string where
  "resource_name = ''azure-function''"

definition outputs_resourceId_key :: string where
  "outputs_resourceId_key = ''resourceId''"

definition outputs_endpoint_key :: string where
  "outputs_endpoint_key = ''endpoint''"

text \<open>
  Modelled from the spec: \<^verbatim>\<open>CheckThrowSomethingMissing\<close> is imported from
  \<^verbatim>\<open>plugins/resource/bot/v3/error\<close>, which is not among the sources. The specification
  says of the execute callback that it "raises typed errors when required state (endpoint,
  resource id) is absent from prior provisioning output": an absent value raises an error
  that names the key, a present value is returned.
\<close>

fun CheckThrowSomethingMissing :: "string \<Rightarrow> 'v option \<Rightarrow> error + 'v" where
  "CheckThrowSomethingMissing name None = Inl (SomethingMissing name)"
| "CheckThrowSomethingMissing name (Some v) = Inr v"

subsection \<open>The deploy action\<close>

definition deploy_plan :: "InputsWithProjectPath \<Rightarrow> Effect list" where
  "deploy_plan inputs =
     [\<lparr> effect_type = ''service'', effect_name = ''azure'',
        remarks = ''deploy azure function in folder: ''
                  @ path_join [projectPath inputs, folder inputs] \<rparr>]"

text \<open>
  The execute callback returns its outcome (the thrown error or the list of effects)
  together with the trace of what it did. Line 112 of the source reads the resource id
  from \<open>states\<close> again; the model takes the value that the check on lines 108-111 has
  just returned for the same entry. A missing \<^verbatim>\<open>azure-function\<close> entry of the state
  makes the property access on line 107 throw a \<^verbatim>\<open>TypeError\<close>.
\<close>

definition deploy_execute ::
  "'tp deploy_env \<Rightarrow> 'tp ProvisionContextV3 \<Rightarrow> InputsWithProjectPath
     \<Rightarrow> (error + Effect list) \<times> 'tp deploy_event list" where
  "deploy_execute env ctx inputs =
     (let tr0 = [LogInfo (Messages_DeployingBot env)];
          workingDir = path_join [projectPath inputs, folder inputs]
      in if workingDir = [] then
           (Inl (PreconditionError (Messages_WorkingDirIsMissing env) []), tr0)
         else
           let tr1 = tr0 @ [PathExists workingDir]
           in if \<not> fs_pathExists env workingDir then (Inl PackDirectoryExistenceError, tr1)
              else
                (case envInfo_state ctx resource_name of
                   None \<Rightarrow> (Inl TypeError, tr1)
                 | Some states \<Rightarrow>
                    (case CheckThrowSomethingMissing outputs_endpoint_key
                            (states outputs_endpoint_key) of
                       Inl e \<Rightarrow> (Inl e, tr1)
                     | Inr endpoint \<Rightarrow>
                        (case CheckThrowSomethingMissing outputs_resourceId_key
                                (states outputs_resourceId_key) of
                           Inl e \<Rightarrow> (Inl e, tr1)
                         | Inr resourceId \<Rightarrow>
                            (let tr2 = tr1 @ [ZipFolder workingDir '''']
                             in case zipFolderAsync env workingDir '''' of
                                  Inl msg \<Rightarrow> (Inl (ExternalError msg), tr2)
                                | Inr zipBuffer \<Rightarrow>
                                   (let tr3 = tr2 @ [AzureWebSiteDeploy resourceId
                                                       (tokenProvider ctx) zipBuffer]
                                    in case azureWebSiteDeploy env resourceId
                                              (tokenProvider ctx) zipBuffer of
                                         Some msg \<Rightarrow> (Inl (ExternalError msg), tr3)
                                       | None \<Rightarrow>
                                          (Inr [\<lparr> effect_type = ''service'',
                                                  effect_name = ''azure'',
                                                  remarks = ''deploy azure function in folder: ''
                                                            @ workingDir \<rparr>], tr3)))))))"

text \<open>Did the action zip a folder or call the deployment API?\<close>

fun is_zip_or_deploy :: "'tp deploy_event \<Rightarrow> bool" where
  "is_zip_or_deploy (ZipFolder d p) = True"
| "is_zip_or_deploy (AzureWebSiteDeploy r t z) = True"
| "is_zip_or_deploy (LogInfo m) = False"
| "is_zip_or_deploy (PathExists d) = False"

definition test_env :: "bool \<Rightarrow> unit deploy_env" where
  "test_env exists =
     \<lparr> Messages_DeployingBot = ''Deploying bot.'',
       Messages_WorkingDirIsMissing = ''Working directory is missing.'',
       fs_pathExists = (\<lambda>d. exists),
       zipFolderAsync = (\<lambda>d p. Inr ''zip''),
       azureWebSiteDeploy = (\<lambda>r t z. None) \<rparr>"

definition test_inputs :: InputsWithProjectPath where
  "test_inputs = \<lparr> projectPath = ''/home/app'', folder = ''api'' \<rparr>"

definition test_ctx :: "(string \<rightharpoonup> string) option \<Rightarrow> unit ProvisionContextV3" where
  "test_ctx st =
     \<lparr> envInfo_state = (\<lambda>k. if k = ''azure-function'' then st else None),
       tokenProvider = () \<rparr>"

section \<open>Code generator skill (vscode-extension/src/chat/officeCommon/skills/codeGenerator.ts)\<close>

subsection \<open>Text: trimming and the fence patterns\<close>

definition NL :: string where
  "NL = [CHR 0x0A]"

text \<open>
  The white space that \<^verbatim>\<open>String.prototype.trim\<close> removes, as far as it lies in the
  modelled range of code units: tab, line feed, vertical tab, form feed, carriage return,
  space and no-break space.
\<close>

definition is_js_whitespace :: "char \<Rightarrow> bool" where
  "is_js_whitespace c \<longleftrightarrow>
     c \<in> set [CHR 0x09, CHR 0x0A, CHR 0x0B, CHR 0x0C, CHR 0x0D, CHR 0x20, CHR 0xA0]"

definition trim :: "string \<Rightarrow> string" where
  "trim s = rev (dropWhile is_js_whitespace (rev (dropWhile is_js_whitespace s)))"

definition fence :: string where
  \<open>fence = ''```''\<close>

text \<open>
  \<open>split_at_first p s\<close> cuts \<open>s\<close> at the leftmost occurrence of \<open>p\<close>: the text before
  it and the text after it.
\<close>

fun split_at_first :: "string \<Rightarrow> string \<Rightarrow> (string \<times> string) option" where
  "split_at_first p [] = (if p = [] then Some ([], []) else None)"
| "split_at_first p (c # cs) =
     (if starts_with p (c # cs) then Some ([], drop (length p) (c # cs))
      else map_option (\<lambda>(before, after). (c # before, after)) (split_at_first p cs))"

text \<open>
  The two patterns of the source, \<^verbatim>\<open>/```json([\s\S]*?)```/\<close> and
  \<^verbatim>\<open>/```typescript([\s\S]*?)```/\<close>, applied with \<^verbatim>\<open>String.prototype.match\<close>:
  \<open>match_fenced opening s\<close> is capture group 1 of the match, or \<open>None\<close> when \<open>match\<close>
  returns \<^verbatim>\<open>null\<close>. The start positions are tried from left to right; at a start position
  the literal \<open>opening\<close> must follow, and the lazy group takes the shortest text up to the
  next closing fence.
\<close>

fun match_fenced :: "string \<Rightarrow> string \<Rightarrow> string option" where
  "match_fenced opening [] = None"
| "match_fenced opening (c # cs) =
     (if starts_with opening (c # cs) then
        (case split_at_first fence (drop (length opening) (c # cs)) of
           Some (group1, rest) \<Rightarrow> Some group1
         | None \<Rightarrow> match_fenced opening cs)
      else match_fenced opening cs)"

subsection \<open>JSON values and the runtime's \<^verbatim>\<open>JSON.parse\<close>\<close>

text \<open>
  A number is modelled by the real number it denotes (the runtime rounds it to a double).
  An object keeps its members in the order of the text.
\<close>

datatype json =
    JNull
  | JBool bool
  | JNumber real
  | JString string
  | JArray "json list"
  | JObject "(string \<times> json) list"

text \<open>
  \<^verbatim>\<open>JSON.parse\<close> belongs to the runtime; the functions of the skill take it as the
  parameter \<open>JSON_parse\<close> of their environment (\<open>None\<close> is a thrown \<^verbatim>\<open>SyntaxError\<close>).
  \<open>json_parse\<close> below is a parser for the JSON grammar, used where a concrete run of
  the skill is evaluated. It reads the text by recursive descent; the fuel bounds the
  number of nested calls, and every two nested calls consume a character. An escape
  \<^verbatim>\<open>\uXXXX\<close> beyond the modelled range of code units is not accepted.
\<close>

definition is_json_ws :: "char \<Rightarrow> bool" where
  "is_json_ws c \<longleftrightarrow> c \<in> set [CHR 0x20, CHR 0x09, CHR 0x0A, CHR 0x0D]"

definition skip_ws :: "string \<Rightarrow> string" where
  "skip_ws s = dropWhile is_json_ws s"

definition is_digit :: "char \<Rightarrow> bool" where
  "is_digit c \<longleftrightarrow> (48::nat) \<le> of_char c \<and> of_char c \<le> (57::nat)"

definition digits_value :: "string \<Rightarrow> nat" where
  "digits_value ds = foldl (\<lambda>n c. 10 * n + (of_char c - 48)) 0 ds"

definition hex_value :: "char \<Rightarrow> nat option" where
  "hex_value c =
     (let n = (of_char c :: nat)
      in if 48 \<le> n \<and> n \<le> 57 then Some (n - 48)
         else if 65 \<le> n \<and> n \<le> 70 then Some (n - 55)
         else if 97 \<le> n \<and> n \<le> 102 then Some (n - 87)
         else None)"

definition unicode_escape :: "char \<Rightarrow> char \<Rightarrow> char \<Rightarrow> char \<Rightarrow> char option" where
  "unicode_escape a b c d =
     (case (hex_value a, hex_value b, hex_value c, hex_value d) of
        (Some h3, Some h2, Some h1, Some h0) \<Rightarrow>
          (let n = ((h3 * 16 + h2) * 16 + h1) * 16 + h0
           in if n < 256 then Some (char_of n) else None)
      | _ \<Rightarrow> None)"

definition simple_escape :: "char \<Rightarrow> char option" where
  \<open>simple_escape e =
     (if e = CHR ''"'' then Some (CHR ''"'')
      else if e = CHR 0x5C then Some (CHR 0x5C)
      else if e = CHR ''/'' then Some (CHR ''/'')
      else if e = CHR ''b'' then Some (CHR 0x08)
      else if e = CHR ''f'' then Some (CHR 0x0C)
      else if e = CHR ''n'' then Some (CHR 0x0A)
      else if e = CHR ''r'' then Some (CHR 0x0D)
      else if e = CHR ''t'' then Some (CHR 0x09)
      else None)\<close>

text \<open>The characters of a string literal after its opening quote, and the rest of the text.\<close>

fun parse_string :: "string \<Rightarrow> (string \<times> string) option" where
  "parse_string [] = None"
| "parse_string [c] = (if c = CHR 0x22 then Some ([], []) else None)"
| "parse_string (c # e # cs) =
     (if c = CHR 0x22 then Some ([], e # cs)
      else if c = CHR 0x5C then
        (if e = CHR ''u'' then
           (case cs of
              h3 # h2 # h1 # h0 # rest \<Rightarrow>
                (case unicode_escape h3 h2 h1 h0 of
                   None \<Rightarrow> None
                 | Some u \<Rightarrow> map_option (\<lambda>(str, r). (u # str, r)) (parse_string rest))
            | _ \<Rightarrow> None)
         else
           (case simple_escape e of
              None \<Rightarrow> None
            | Some u \<Rightarrow> map_option (\<lambda>(str, r). (u # str, r)) (parse_string cs)))
      else if (of_char c :: nat) < 32 then None
      else map_option (\<lambda>(str, r). (c # str, r)) (parse_string (e # cs)))"

text \<open>
  A number literal: an optional minus sign, an integer part without a superfluous
  leading zero, an optional fraction and an optional exponent.
\<close>

definition parse_exponent :: "string \<Rightarrow> ((bool \<times> nat) \<times> string) option" where
  "parse_exponent s =
     (case s of
        [] \<Rightarrow> Some ((False, 0), s)
      | c # cs \<Rightarrow>
         if c = CHR ''e'' \<or> c = CHR ''E'' then
           (let (negative, ds) =
                  (case cs of
                     [] \<Rightarrow> (False, cs)
                   | d # r \<Rightarrow> if d = CHR ''-'' then (True, r)
                              else if d = CHR ''+'' then (False, r) else (False, cs))
            in if takeWhile is_digit ds = [] then None
               else Some ((negative, digits_value (takeWhile is_digit ds)),
                          dropWhile is_digit ds))
         else Some ((False, 0), s))"

definition parse_fraction :: "string \<Rightarrow> (string \<times> string) option" where
  "parse_fraction s =
     (case s of
        [] \<Rightarrow> Some ([], s)
      | c # cs \<Rightarrow>
         if c = CHR ''.'' then
           (if takeWhile is_digit cs = [] then None
            else Some (takeWhile is_digit cs, dropWhile is_digit cs))
         else Some ([], s))"

definition parse_number :: "string \<Rightarrow> (real \<times> string) option" where
  "parse_number s =
     (let (negative, s1) =
            (case s of
               [] \<Rightarrow> (False, s)
             | c # cs \<Rightarrow> if c = CHR ''-'' then (True, cs) else (False, s));
          ip = takeWhile is_digit s1
      in if ip = [] \<or> (1 < length ip \<and> hd ip = CHR ''0'') then None
         else
           (case parse_fraction (dropWhile is_digit s1) of
              None \<Rightarrow> None
            | Some (fp, s2) \<Rightarrow>
               (case parse_exponent s2 of
                  None \<Rightarrow> None
                | Some ((eneg, e), s3) \<Rightarrow>
                   (let mantissa = of_nat (digits_value ip)
                                   + of_nat (digits_value fp) / 10 ^ length fp;
                        magnitude = (if eneg then mantissa / 10 ^ e else mantissa * 10 ^ e)
                    in Some (if negative then - magnitude else magnitude, s3)))))"

fun parse_value :: "nat \<Rightarrow> string \<Rightarrow> (json \<times> string) option"
  and parse_elements :: "nat \<Rightarrow> string \<Rightarrow> (json list \<times> string) option"
  and parse_members :: "nat \<Rightarrow> string \<Rightarrow> ((string \<times> json) list \<times> string) option"
where
  "parse_value 0 s = None"
| "parse_value (Suc n) s =
     (case skip_ws s of
        [] \<Rightarrow> None
      | c # cs \<Rightarrow>
         if c = CHR ''{'' then
           (case skip_ws cs of
              [] \<Rightarrow> None
            | d # ds \<Rightarrow>
               if d = CHR ''}'' then Some (JObject [], ds)
               else map_option (\<lambda>(ms, r). (JObject ms, r)) (parse_members n (d # ds)))
         else if c = CHR ''['' then
           (case skip_ws cs of
              [] \<Rightarrow> None
            | d # ds \<Rightarrow>
               if d = CHR '']'' then Some (JArray [], ds)
               else map_option (\<lambda>(vs, r). (JArray vs, r)) (parse_elements n (d # ds)))
         else if c = CHR 0x22 then
           map_option (\<lambda>(str, r). (JString str, r)) (parse_string cs)
         else if starts_with ''true'' (c # cs) then Some (JBool True, drop 4 (c # cs))
         else if starts_with ''false'' (c # cs) then Some (JBool False, drop 5 (c # cs))
         else if starts_with ''null'' (c # cs) then Some (JNull, drop 4 (c # cs))
         else map_option (\<lambda>(x, r). (JNumber x, r)) (parse_number (c # cs)))"
| "parse_elements 0 s = None"
| "parse_elements (Suc n) s =
     (case parse_value n s of
        None \<Rightarrow> None
      | Some (v, r) \<Rightarrow>
         (case skip_ws r of
            [] \<Rightarrow> None
          | c # cs \<Rightarrow>
             if c = CHR '','' then
               map_option (\<lambda>(vs, r'). (v # vs, r')) (parse_elements n cs)
             else if c = CHR '']'' then Some ([v], cs)
             else None))"
| "parse_members 0 s = None"
| "parse_members (Suc n) s =
     (case skip_ws s of
        [] \<Rightarrow> None
      | q # cs \<Rightarrow>
         if q \<noteq> CHR 0x22 then None
         else
           (case parse_string cs of
              None \<Rightarrow> None
            | Some (k, r) \<Rightarrow>
               (case skip_ws r of
                  [] \<Rightarrow> None
                | c # r1 \<Rightarrow>
                   if c \<noteq> CHR '':'' then None
                   else
                     (case parse_value n r1 of
                        None \<Rightarrow> None
                      | Some (v, r2) \<Rightarrow>
                         (case skip_ws r2 of
                            [] \<Rightarrow> None
                          | c' # r3 \<Rightarrow>
                             if c' = CHR '','' then
                               map_option (\<lambda>(ms, r'). ((k, v) # ms, r'))
                                 (parse_members n r3)
                             else if c' = CHR ''}'' then Some ([(k, v)], r3)
                             else None)))))"

definition json_parse :: "string \<Rightarrow> json option" where
  "json_parse text =
     (case parse_value (2 * length text + 2) text of
        None \<Rightarrow> None
      | Some (v, r) \<Rightarrow> if skip_ws r = [] then Some v else None)"

subsection \<open>Data of the skill\<close>

datatype message =
    LanguageModelChatSystemMessage string
  | LanguageModelChatUserMessage string

datatype ExecutionResultEnum = Success | Failure | Rejected

record ChatRequest =
  prompt :: string

record SampleData =
  description :: string
  codeSample :: string

record TelemetryData =
  measurements :: "string \<rightharpoonup> real"
  properties :: "string \<rightharpoonup> string"

text \<open>
  The class \<^verbatim>\<open>Spec\<close> is declared outside the sources; the record has the members that
  the skill reads and writes, with the types it uses them at. \<open>codeTaskBreakdown\<close> is
  \<open>None\<close> when the member is \<^verbatim>\<open>undefined\<close> or \<^verbatim>\<open>null\<close> (the source casts it to
  \<^verbatim>\<open>string[]\<close> before it reads its length). A number is modelled by a real number;
  \<^verbatim>\<open>NaN\<close>, the infinities and the rounding of doubles are not modelled.
\<close>

record Appendix =
  host :: string
  codeTaskBreakdown :: "string list option"
  isCustomFunction :: bool
  complexity :: real
  codeSnippet :: string
  telemetryData :: TelemetryData

record Spec =
  sections :: "string list"
  appendix :: Appendix

text \<open>The declared type of the result of the breakdown.\<close>

record BreakdownResult =
  result_host :: string
  shouldContinue :: bool
  customFunctions :: bool
  result_data :: "string list"
  result_complexity :: real

text \<open>
  What the skill does that can be observed from outside, in order: the progress messages
  it reports, its calls of the two stages, each exchange with the remote model (model
  name, messages sent, text received), each call of \<^verbatim>\<open>JSON.parse\<close> (the text parsed) and
  each query of the sample provider (host, prompt, number of samples asked for;
  \<open>SampleQueryAny\<close> when the host passed is not a string). The text written to the
  console is left out, though not an error thrown while it is built; so is the
  cancellation token, which is only handed on.
\<close>

datatype cg_event =
    Progress string
  | Call_userInputBreakdownTaskAsync
  | Call_generateCode
  | CopilotResponse string "message list" string
  | SampleQuery string string nat
  | JsonParse string
  | SampleQueryAny "json option" string nat

text \<open>
  The fixed prompt texts of the source are parameters: \<open>excelSystemPrompt\<close> and
  \<open>cfSystemPrompt\<close> are its two constants; \<open>breakdownUserPrompt\<close> (a template over the
  request's prompt) and \<open>breakdownSystemPrompt\<close> are the two texts of
  \<^verbatim>\<open>userInputBreakdownTaskAsync\<close>; \<open>codegenUserPrompt\<close> (a template over the request's
  prompt, the host, the list of suggested functions and the host's guidance) and
  \<open>codegenSystemPrompt\<close> are the two texts of \<^verbatim>\<open>generateCode\<close>. Every property below
  holds whatever their wording.
\<close>

record Prompts =
  excelSystemPrompt :: string
  cfSystemPrompt :: string
  breakdownUserPrompt :: "string \<Rightarrow> string"
  breakdownSystemPrompt :: string
  codegenUserPrompt :: "string \<Rightarrow> string \<Rightarrow> string \<Rightarrow> string \<Rightarrow> string"
  codegenSystemPrompt :: string

text \<open>The telemetry keys, constants of \<^verbatim>\<open>telemetryConsts\<close>, which is outside the sources.\<close>

record TelemetryConsts =
  MeasurementCodeGenAttemptCount :: string
  MeasurementCodeGenExecutionTimeInTotalSec :: string
  MeasurementScenarioBasedSampleMatchedCount :: string
  PropertySystemCodeGenIsCustomFunction :: string
  PropertySystemCodeGenResult :: string
  PropertySystemCodeGenTargetedOfficeHostApplication :: string
  MeasurementSystemCodegenTaskBreakdownAttemptFailedCount :: string

text \<open>
  The collaborators of the skill: the remote model behind
  \<^verbatim>\<open>getCopilotResponseAsString\<close> (model name and messages to the text of the answer),
  the runtime's \<^verbatim>\<open>JSON.parse\<close>, the sample provider (host, prompt and \<open>k\<close> to a map from
  names to samples, in the order of its entries), \<^verbatim>\<open>getCodeGenerateGuidance\<close> and
  \<^verbatim>\<open>correctPropertyLoadSpelling\<close>.

  The last four members serve the runs in which values that are not of their declared
  types reach the code generation: the runtime's conversion of a number to a string and
  of a string to a number, and what the sample provider and
  \<^verbatim>\<open>getCodeGenerateGuidance\<close> answer when the host that they are passed is not a string.
\<close>

datatype js_number = NaN | NegativeInfinity | Finite real | PositiveInfinity

record cg_env =
  getCopilotResponseAsString :: "string \<Rightarrow> message list \<Rightarrow> string"
  JSON_parse :: "string \<Rightarrow> json option"
  getTopKMostRelevantScenarioSampleCodes ::
    "string \<Rightarrow> string \<Rightarrow> nat \<Rightarrow> (string \<times> SampleData) list"
  getCodeGenerateGuidance :: "string \<Rightarrow> string"
  correctPropertyLoadSpelling :: "string \<Rightarrow> string"
  prompts :: Prompts
  telemetryConsts :: TelemetryConsts
  NumberToString :: "real \<Rightarrow> string"
  StringToNumber :: "string \<Rightarrow> js_number"
  getTopKMostRelevantScenarioSampleCodesAny ::
    "json option \<Rightarrow> string \<Rightarrow> nat \<Rightarrow> (string \<times> SampleData) list"
  getCodeGenerateGuidanceAny :: "json option \<Rightarrow> string"

text \<open>
  Modelled from the spec: \<^verbatim>\<open>SampleProvider\<close> is imported from
  \<^verbatim>\<open>samples/sampleProvider\<close>, which is not among the sources. The specification says
  that the code generation "fetches up to two most relevant static samples" with its
  request for the top two: a provider asked for the top \<open>k\<close> answers with at most \<open>k\<close>
  samples.
\<close>

definition honours_top_k :: "(string \<Rightarrow> string \<Rightarrow> nat \<Rightarrow> (string \<times> SampleData) list) \<Rightarrow> bool" where
  "honours_top_k provider \<longleftrightarrow> (\<forall>h p k. length (provider h p k) \<le> k)"

subsection \<open>JavaScript's truthiness and the declared type of a parsed value\<close>

text \<open>
  A property of a parsed value, for the names that the skill reads (\<^verbatim>\<open>host\<close>,
  \<^verbatim>\<open>shouldContinue\<close>, \<^verbatim>\<open>data\<close>, \<^verbatim>\<open>customFunctions\<close>, \<^verbatim>\<open>complexity\<close>), none of which a
  prototype defines: an object has the members of its text, any other value has none.
  \<open>None\<close> is \<^verbatim>\<open>undefined\<close>. Of two members with the same name the later one counts.
\<close>

fun get_prop :: "json \<Rightarrow> string \<Rightarrow> json option" where
  "get_prop (JObject members) name = map_of (rev members) name"
| "get_prop other name = None"

text \<open>A value on which \<^verbatim>\<open>!\<close> gives \<^verbatim>\<open>true\<close>; \<open>None\<close> is \<^verbatim>\<open>null\<close> or \<^verbatim>\<open>undefined\<close>.\<close>

fun falsy :: "json option \<Rightarrow> bool" where
  "falsy None = True"
| "falsy (Some JNull) = True"
| "falsy (Some (JBool b)) = (\<not> b)"
| "falsy (Some (JNumber x)) = (x = 0)"
| "falsy (Some (JString str)) = (str = [])"
| "falsy (Some (JArray vs)) = False"
| "falsy (Some (JObject members)) = False"

text \<open>A telemetry measurement on which \<^verbatim>\<open>!\<close> gives \<^verbatim>\<open>true\<close>: absent or zero.\<close>

fun falsy_number :: "real option \<Rightarrow> bool" where
  "falsy_number None = True"
| "falsy_number (Some x) = (x = 0)"

fun as_string :: "json option \<Rightarrow> string option" where
  "as_string (Some (JString str)) = Some str"
| "as_string other = None"

fun as_boolean :: "json option \<Rightarrow> bool option" where
  "as_boolean (Some (JBool b)) = Some b"
| "as_boolean other = None"

fun as_number :: "json option \<Rightarrow> real option" where
  "as_number (Some (JNumber x)) = Some x"
| "as_number other = None"

fun as_strings :: "json list \<Rightarrow> string list option" where
  "as_strings [] = Some []"
| "as_strings (v # vs) =
     (case (as_string (Some v), as_strings vs) of
        (Some str, Some strs) \<Rightarrow> Some (str # strs)
      | _ \<Rightarrow> None)"

fun as_string_array :: "json option \<Rightarrow> string list option" where
  "as_string_array (Some (JArray vs)) = as_strings vs"
| "as_string_array other = None"

text \<open>
  The source assigns the parsed value to a variable of the declared type of the result
  without a check. \<open>as_BreakdownResult\<close> reads a parsed value at that type: it succeeds
  on an object whose five members have the declared types. The skill itself never makes
  this check; the definition serves to say when a parsed value is a populated result.
\<close>

definition as_BreakdownResult :: "json \<Rightarrow> BreakdownResult option" where
  "as_BreakdownResult v =
     (case (as_string (get_prop v ''host''),
            as_boolean (get_prop v ''shouldContinue''),
            as_boolean (get_prop v ''customFunctions''),
            as_string_array (get_prop v ''data''),
            as_number (get_prop v ''complexity'')) of
        (Some h, Some sc, Some cf, Some d, Some c) \<Rightarrow>
          Some \<lparr> result_host = h, shouldContinue = sc, customFunctions = cf,
                 result_data = d, result_complexity = c \<rparr>
      | _ \<Rightarrow> None)"

datatype cg_error = JsTypeError

subsection \<open>JavaScript's conversions of parsed values\<close>

text \<open>
  A value of the running program is a parsed JSON value, or \<open>None\<close> for \<^verbatim>\<open>undefined\<close>.

  The conversion of such a value to a string (\<^verbatim>\<open>ToString\<close>, as a template literal and
  \<^verbatim>\<open>Array.prototype.join\<close> apply it) throws a \<^verbatim>\<open>TypeError\<close> on an object that has a member
  named \<^verbatim>\<open>toString\<close>: the member hides \<^verbatim>\<open>Object.prototype.toString\<close>, a parsed value is
  never callable, and \<^verbatim>\<open>valueOf\<close> gives back the object. It throws on an array when
  it throws on one of its elements. It throws on nothing else.
\<close>

fun to_string_throws :: "json \<Rightarrow> bool" where
  "to_string_throws (JObject members) = (''toString'' \<in> set (map fst members))"
| "to_string_throws (JArray vs) = (\<exists>v \<in> set vs. to_string_throws v)"
| "to_string_throws JNull = False"
| "to_string_throws (JBool b) = False"
| "to_string_throws (JNumber x) = False"
| "to_string_throws (JString str) = False"

fun throws :: "json option \<Rightarrow> bool" where
  "throws None = False"
| "throws (Some v) = to_string_throws v"

text \<open>
  The string that the conversion gives when it does not throw; \<open>num\<close> is the runtime's
  conversion of a number. \<^verbatim>\<open>join\<close> writes nothing for an element that is \<^verbatim>\<open>null\<close>.
\<close>

fun to_string :: "(real \<Rightarrow> string) \<Rightarrow> json \<Rightarrow> string" where
  "to_string num JNull = ''null''"
| "to_string num (JBool b) = (if b then ''true'' else ''false'')"
| "to_string num (JNumber x) = num x"
| "to_string num (JString str) = str"
| "to_string num (JArray vs) =
     join_with '','' (map (\<lambda>v. if v = JNull then [] else to_string num v) vs)"
| "to_string num (JObject members) = ''[object Object]''"

fun ToString :: "(real \<Rightarrow> string) \<Rightarrow> json option \<Rightarrow> string" where
  "ToString num None = ''undefined''"
| "ToString num (Some v) = to_string num v"

text \<open>
  The conversion to a number (\<^verbatim>\<open>ToNumber\<close>) of a value whose conversion to a string
  does not throw; \<open>str2num\<close> is the runtime's conversion of a string. An array is
  converted through its string, an object without a member \<^verbatim>\<open>toString\<close> through the
  string \<^verbatim>\<open>[object Object]\<close>, which is not a number.
\<close>

fun ToNumber :: "(real \<Rightarrow> string) \<Rightarrow> (string \<Rightarrow> js_number) \<Rightarrow> json option \<Rightarrow> js_number" where
  "ToNumber num str2num None = NaN"
| "ToNumber num str2num (Some JNull) = Finite 0"
| "ToNumber num str2num (Some (JBool b)) = Finite (if b then 1 else 0)"
| "ToNumber num str2num (Some (JNumber x)) = Finite x"
| "ToNumber num str2num (Some (JString str)) = str2num str"
| "ToNumber num str2num (Some (JArray vs)) = str2num (to_string num (JArray vs))"
| "ToNumber num str2num (Some (JObject members)) = NaN"

fun number_ge :: "js_number \<Rightarrow> real \<Rightarrow> bool" where
  "number_ge NaN c = False"
| "number_ge NegativeInfinity c = False"
| "number_ge (Finite x) c = (c \<le> x)"
| "number_ge PositiveInfinity c = True"

text \<open>
  The comparison \<^verbatim>\<open>v >= c\<close> with a number \<open>c\<close>: the value is converted to a primitive
  and then to a number, and the comparison is false when that is \<^verbatim>\<open>NaN\<close>.
\<close>

definition js_ge :: "cg_env \<Rightarrow> json option \<Rightarrow> real \<Rightarrow> cg_error + bool" where
  "js_ge env v c =
     (if throws v then Inl JsTypeError
      else Inr (number_ge (ToNumber (NumberToString env) (StringToNumber env) v) c))"

text \<open>
  The sample provider and \<^verbatim>\<open>getCodeGenerateGuidance\<close> called with a host of any kind,
  and the event that records the query.
\<close>

definition samples_for ::
  "cg_env \<Rightarrow> json option \<Rightarrow> string \<Rightarrow> nat \<Rightarrow> (string \<times> SampleData) list" where
  "samples_for env host' p k =
     (case as_string host' of
        Some h \<Rightarrow> getTopKMostRelevantScenarioSampleCodes env h p k
      | None \<Rightarrow> getTopKMostRelevantScenarioSampleCodesAny env host' p k)"

definition sample_query :: "json option \<Rightarrow> string \<Rightarrow> nat \<Rightarrow> cg_event" where
  "sample_query host' p k =
     (case as_string host' of
        Some h \<Rightarrow> SampleQuery h p k
      | None \<Rightarrow> SampleQueryAny host' p k)"

definition guidance_for :: "cg_env \<Rightarrow> json option \<Rightarrow> string" where
  "guidance_for env host' =
     (case as_string host' of
        Some h \<Rightarrow> getCodeGenerateGuidance env h
      | None \<Rightarrow> getCodeGenerateGuidanceAny env host')"

subsection \<open>Telemetry updates\<close>

definition update_measurements :: "((string \<rightharpoonup> real) \<Rightarrow> (string \<rightharpoonup> real)) \<Rightarrow> Spec \<Rightarrow> Spec" where
  "update_measurements f spec =
     spec\<lparr> appendix := (appendix spec)
       \<lparr> telemetryData := (telemetryData (appendix spec))
           \<lparr> measurements := f (measurements (telemetryData (appendix spec))) \<rparr> \<rparr> \<rparr>"

definition set_property :: "string \<Rightarrow> string \<Rightarrow> Spec \<Rightarrow> Spec" where
  "set_property key v spec =
     spec\<lparr> appendix := (appendix spec)
       \<lparr> telemetryData := (telemetryData (appendix spec))
           \<lparr> properties := (properties (telemetryData (appendix spec)))(key \<mapsto> v) \<rparr> \<rparr> \<rparr>"

text \<open>
  The pattern \<^verbatim>\<open>if (!m[key]) { m[key] = 0; } m[key] += d;\<close> of the source. After the
  first statement the entry is present, so the second one finds a number.
\<close>

definition init_measurement :: "string \<Rightarrow> (string \<rightharpoonup> real) \<Rightarrow> (string \<rightharpoonup> real)" where
  "init_measurement key m = (if falsy_number (m key) then m(key \<mapsto> 0) else m)"

definition add_to_measurement :: "string \<Rightarrow> real \<Rightarrow> (string \<rightharpoonup> real) \<Rightarrow> (string \<rightharpoonup> real)" where
  "add_to_measurement key d m = (case m key of None \<Rightarrow> m | Some x \<Rightarrow> m(key \<mapsto> x + d))"

definition count_measurement :: "string \<Rightarrow> real \<Rightarrow> Spec \<Rightarrow> Spec" where
  "count_measurement key d spec =
     update_measurements (add_to_measurement key d \<circ> init_measurement key) spec"

subsection \<open>The spec with the values that the breakdown wrote into it\<close>

text \<open>
  \<^verbatim>\<open>invoke\<close> copies members of the parsed value into the spec without a check, so after
  the breakdown the spec holds values of any kind where its declaration names a type.
  \<open>JsSpec\<close> is the spec with such members; \<open>js_of_spec\<close> reads a spec of the declared
  types as one.
\<close>

record JsTelemetryData =
  js_measurements :: "string \<rightharpoonup> real"
  js_properties :: "string \<rightharpoonup> json option"

record JsAppendix =
  js_host :: "json option"
  js_codeTaskBreakdown :: "json option"
  js_isCustomFunction :: "json option"
  js_complexity :: "json option"
  js_codeSnippet :: string
  js_telemetryData :: JsTelemetryData

record JsSpec =
  js_sections :: "json option"
  js_appendix :: JsAppendix

definition js_of_spec :: "Spec \<Rightarrow> JsSpec" where
  "js_of_spec spec =
     \<lparr> js_sections = Some (JArray (map JString (sections spec))),
       js_appendix =
         \<lparr> js_host = Some (JString (host (appendix spec))),
           js_codeTaskBreakdown =
             map_option (\<lambda>tasks. JArray (map JString tasks)) (codeTaskBreakdown (appendix spec)),
           js_isCustomFunction = Some (JBool (isCustomFunction (appendix spec))),
           js_complexity = Some (JNumber (complexity (appendix spec))),
           js_codeSnippet = codeSnippet (appendix spec),
           js_telemetryData =
             \<lparr> js_measurements = measurements (telemetryData (appendix spec)),
               js_properties =
                 (\<lambda>key. map_option (\<lambda>str. Some (JString str))
                          (properties (telemetryData (appendix spec)) key)) \<rparr> \<rparr> \<rparr>"

definition js_update_measurements ::
  "((string \<rightharpoonup> real) \<Rightarrow> (string \<rightharpoonup> real)) \<Rightarrow> JsSpec \<Rightarrow> JsSpec" where
  "js_update_measurements f spec =
     spec\<lparr> js_appendix := (js_appendix spec)
       \<lparr> js_telemetryData := (js_telemetryData (js_appendix spec))
           \<lparr> js_measurements := f (js_measurements (js_telemetryData (js_appendix spec))) \<rparr> \<rparr> \<rparr>"

definition js_set_property :: "string \<Rightarrow> json option \<Rightarrow> JsSpec \<Rightarrow> JsSpec" where
  "js_set_property key v spec =
     spec\<lparr> js_appendix := (js_appendix spec)
       \<lparr> js_telemetryData := (js_telemetryData (js_appendix spec))
           \<lparr> js_properties :=
               (js_properties (js_telemetryData (js_appendix spec)))(key \<mapsto> v) \<rparr> \<rparr> \<rparr>"

definition js_count_measurement :: "string \<Rightarrow> real \<Rightarrow> JsSpec \<Rightarrow> JsSpec" where
  "js_count_measurement key d spec =
     js_update_measurements (add_to_measurement key d \<circ> init_measurement key) spec"

subsection \<open>\<^verbatim>\<open>userInputBreakdownTaskAsync\<close>\<close>

text \<open>
  The result is \<open>None\<close> where the source returns \<^verbatim>\<open>null\<close>: when \<^verbatim>\<open>JSON.parse\<close> throws;
  when it returns \<^verbatim>\<open>null\<close>, since reading \<^verbatim>\<open>copilotRet.complexity\<close> for the console then
  throws inside the same \<^verbatim>\<open>try\<close> block; and when the template literal for the console
  cannot convert \<^verbatim>\<open>copilotRet.complexity\<close> to a string, which throws there as well.
\<close>

definition userInputBreakdownTaskAsync :: "cg_env \<Rightarrow> ChatRequest \<Rightarrow> json option \<times> cg_event list" where
  \<open>userInputBreakdownTaskAsync env request =
     (let userPrompt = breakdownUserPrompt (prompts env) (prompt request);
          defaultSystemPrompt = breakdownSystemPrompt (prompts env);
          messages = [LanguageModelChatSystemMessage defaultSystemPrompt,
                      LanguageModelChatUserMessage userPrompt];
          copilotResponse = getCopilotResponseAsString env ''copilot-gpt-3.5-turbo'' messages;
          parsedText =
            (case match_fenced ''```json'' copilotResponse of
               None \<Rightarrow> trim copilotResponse
             | Some group1 \<Rightarrow> trim group1);
          copilotRet = JSON_parse env parsedText;
          trace = [CopilotResponse ''copilot-gpt-3.5-turbo'' messages copilotResponse,
                   JsonParse parsedText]
      in case copilotRet of
           None \<Rightarrow> (None, trace)
         | Some v \<Rightarrow>
             if v = JNull then (None, trace)
             else if throws (get_prop v ''complexity'') then (None, trace)
             else (Some v, trace))\<close>

subsection \<open>\<^verbatim>\<open>generateCode\<close>\<close>

definition sample_snippet :: "SampleData \<Rightarrow> string" where
  \<open>sample_snippet sample =
     ''- '' @ description sample @ '':'' @ NL
     @ replicate 30 (CHR '' '') @ ''```typescript'' @ NL
     @ replicate 30 (CHR '' '') @ codeSample sample @ NL
     @ replicate 30 (CHR '' '') @ ''```'' @ NL\<close>

definition generateCode ::
  "cg_env \<Rightarrow> ChatRequest \<Rightarrow> string \<Rightarrow> bool \<Rightarrow> string list \<Rightarrow> Spec
     \<Rightarrow> string option \<times> Spec \<times> cg_event list" where
  \<open>generateCode env request host' isCustomFunctions suggestedFunction spec =
     (let userPrompt =
            codegenUserPrompt (prompts env) (prompt request) host'
              (join_with NL (map (\<lambda>task. ''- '' @ task) suggestedFunction))
              (getCodeGenerateGuidance env host');
          spec1 =
            set_property (PropertySystemCodeGenIsCustomFunction (telemetryConsts env))
              (if isCustomFunctions then ''true'' else ''false'')
              (set_property
                 (PropertySystemCodeGenTargetedOfficeHostApplication (telemetryConsts env))
                 host' spec);
          (referenceUserPrompt, defaultSystemPrompt) =
            (if host' = ''Excel'' then
               ((if \<not> isCustomFunctions then excelSystemPrompt (prompts env)
                 else cfSystemPrompt (prompts env)),
                codegenSystemPrompt (prompts env))
             else ([], []));
          scenarioSamples =
            getTopKMostRelevantScenarioSampleCodes env host' (prompt request) 2;
          codeSnippets = map (\<lambda>(api, sample). sample_snippet sample) scenarioSamples;
          defaultSystemPrompt' =
            (if 0 < length scenarioSamples \<and> 0 < length codeSnippets then
               defaultSystemPrompt @ NL @ join_with NL codeSnippets @ NL @ NL
             else defaultSystemPrompt);
          spec2 =
            count_measurement
              (MeasurementScenarioBasedSampleMatchedCount (telemetryConsts env))
              (if 0 < length scenarioSamples then 1 else 0) spec1;
          messages = [LanguageModelChatSystemMessage referenceUserPrompt,
                      LanguageModelChatSystemMessage defaultSystemPrompt',
                      LanguageModelChatUserMessage userPrompt];
          model = (if 50 \<le> complexity (appendix spec2) then ''copilot-gpt-4''
                   else ''copilot-gpt-3.5-turbo'');
          copilotResponse = getCopilotResponseAsString env model messages;
          trace = [SampleQuery host' (prompt request) 2,
                   CopilotResponse model messages copilotResponse]
      in case match_fenced ''```typescript'' copilotResponse of
           None \<Rightarrow> (None, spec2, trace)
         | Some group1 \<Rightarrow>
             (Some (correctPropertyLoadSpelling env (trim group1)), spec2, trace))\<close>

text \<open>
  \<^verbatim>\<open>generateCode\<close> as \<^verbatim>\<open>invoke\<close> calls it, on the values that the spec holds after the
  breakdown. On values of the declared types it does what \<open>generateCode\<close> above does
  (\<open>generateCode_js_typed\<close> below). On other values the same lines run under the rules
  of the language:
  \<^item> the template literal of the user prompt converts the host and every suggested
    function to a string, and \<^verbatim>\<open>suggestedFunction.map\<close> exists only on an array;
  \<^item> \<^verbatim>\<open>isCustomFunctions.toString()\<close> throws on \<^verbatim>\<open>undefined\<close> and \<^verbatim>\<open>null\<close>, and where
    the conversion to a string throws;
  \<^item> \<^verbatim>\<open>case "Excel"\<close> compares with strict equality, \<^verbatim>\<open>!isCustomFunctions\<close> tests
    truthiness, and \<^verbatim>\<open>spec.appendix.complexity >= 50\<close> converts to a number.
  A thrown error ends the function; the trace holds what it had done by then.
\<close>

definition generateCode_js ::
  "cg_env \<Rightarrow> ChatRequest \<Rightarrow> json option \<Rightarrow> json option \<Rightarrow> json option \<Rightarrow> JsSpec
     \<Rightarrow> (cg_error + string option \<times> JsSpec) \<times> cg_event list" where
  \<open>generateCode_js env request host' isCustomFunctions suggestedFunction spec =
     (if throws host' then (Inl JsTypeError, [])
      else
        (case suggestedFunction of
           Some (JArray tasks) \<Rightarrow>
             if \<exists>task \<in> set tasks. to_string_throws task then (Inl JsTypeError, [])
             else if isCustomFunctions = None \<or> isCustomFunctions = Some JNull
                     \<or> throws isCustomFunctions then (Inl JsTypeError, [])
             else
               (let userPrompt =
                      codegenUserPrompt (prompts env) (prompt request)
                        (ToString (NumberToString env) host')
                        (join_with NL
                           (map (\<lambda>task. ''- '' @ to_string (NumberToString env) task) tasks))
                        (guidance_for env host');
                    spec1 =
                      js_set_property
                        (PropertySystemCodeGenIsCustomFunction (telemetryConsts env))
                        (Some (JString (ToString (NumberToString env) isCustomFunctions)))
                        (js_set_property
                           (PropertySystemCodeGenTargetedOfficeHostApplication
                              (telemetryConsts env))
                           host' spec);
                    referenceUserPrompt =
                      (if host' = Some (JString ''Excel'') then
                         (if falsy isCustomFunctions then excelSystemPrompt (prompts env)
                          else cfSystemPrompt (prompts env))
                       else []);
                    defaultSystemPrompt =
                      (if host' = Some (JString ''Excel'') then codegenSystemPrompt (prompts env)
                       else []);
                    scenarioSamples = samples_for env host' (prompt request) 2;
                    codeSnippets = map (\<lambda>(api, sample). sample_snippet sample) scenarioSamples;
                    defaultSystemPrompt' =
                      (if 0 < length scenarioSamples \<and> 0 < length codeSnippets then
                         defaultSystemPrompt @ NL @ join_with NL codeSnippets @ NL @ NL
                       else defaultSystemPrompt);
                    spec2 =
                      js_count_measurement
                        (MeasurementScenarioBasedSampleMatchedCount (telemetryConsts env))
                        (if 0 < length scenarioSamples then 1 else 0) spec1;
                    messages = [LanguageModelChatSystemMessage referenceUserPrompt,
                                LanguageModelChatSystemMessage defaultSystemPrompt',
                                LanguageModelChatUserMessage userPrompt]
                in case js_ge env (js_complexity (js_appendix spec2)) 50 of
                     Inl e \<Rightarrow> (Inl e, [sample_query host' (prompt request) 2])
                   | Inr stronger \<Rightarrow>
                       (let model = (if stronger then ''copilot-gpt-4''
                                     else ''copilot-gpt-3.5-turbo'');
                            copilotResponse = getCopilotResponseAsString env model messages;
                            trace = [sample_query host' (prompt request) 2,
                                     CopilotResponse model messages copilotResponse]
                        in case match_fenced ''```typescript'' copilotResponse of
                             None \<Rightarrow> (Inr (None, spec2), trace)
                           | Some group1 \<Rightarrow>
                               (Inr (Some (correctPropertyLoadSpelling env (trim group1)),
                                     spec2),
                                trace)))
         | _ \<Rightarrow> (Inl JsTypeError, [])))\<close>

subsection \<open>\<^verbatim>\<open>invoke\<close>\<close>

text \<open>
  The condition on lines 137-141: \<^verbatim>\<open>!!host || !!codeTaskBreakdown ||
  codeTaskBreakdown.length == 0\<close>, evaluated from left to right. A string is truthy when
  it is not empty, an array always; reading the length of \<^verbatim>\<open>undefined\<close> throws.
\<close>

definition breakdown_guard :: "Spec \<Rightarrow> cg_error + bool" where
  "breakdown_guard spec =
     (if host (appendix spec) \<noteq> [] then Inr True
      else if codeTaskBreakdown (appendix spec) \<noteq> None then Inr True
      else (case codeTaskBreakdown (appendix spec) of
              None \<Rightarrow> Inl JsTypeError
            | Some tasks \<Rightarrow> Inr (length tasks = 0)))"

text \<open>
  Lines 172-211: the code generation stage, on the spec as it is after the breakdown.
  \<open>t0\<close> and \<open>t1\<close> are the two readings of the clock. The comparison on line 177 can
  throw, before the progress message and the call of \<^verbatim>\<open>generateCode\<close>.
\<close>

definition invoke_generate ::
  "cg_env \<Rightarrow> real \<Rightarrow> real \<Rightarrow> ChatRequest \<Rightarrow> JsSpec \<Rightarrow> cg_event list
     \<Rightarrow> (cg_error + ExecutionResultEnum \<times> JsSpec) \<times> cg_event list" where
  "invoke_generate env t0 t1 request spec trace =
     (let spec1 =
            js_count_measurement (MeasurementCodeGenAttemptCount (telemetryConsts env)) 1 spec
      in case js_ge env (js_complexity (js_appendix spec1)) 50 of
           Inl e \<Rightarrow> (Inl e, trace)
         | Inr high \<Rightarrow>
            (let progressMessageStr =
                   (if high then
                      ''This is a task with high complexity, may take a little bit longer...''
                      @ ''generating code...''
                    else
                      ''We should be able to generate the code in a short while...''
                      @ ''generating code...'');
                 trace1 = trace @ [Progress progressMessageStr, Call_generateCode]
             in case generateCode_js env request (js_host (js_appendix spec1))
                       (js_isCustomFunction (js_appendix spec1))
                       (js_codeTaskBreakdown (js_appendix spec1)) spec1 of
                  (Inl e, trace2) \<Rightarrow> (Inl e, trace1 @ trace2)
                | (Inr (codeSnippet', spec2), trace2) \<Rightarrow>
                    (let duration = (t1 - t0) / 1000;
                         key = MeasurementCodeGenExecutionTimeInTotalSec (telemetryConsts env);
                         spec3 =
                           js_update_measurements
                             (\<lambda>m. if falsy_number (m key) then m(key \<mapsto> duration)
                                  else add_to_measurement key duration m) spec2
                     in case codeSnippet' of
                          None \<Rightarrow>
                            (Inr (Failure,
                                  js_set_property
                                    (PropertySystemCodeGenResult (telemetryConsts env))
                                    (Some (JString ''false'')) spec3),
                             trace1 @ trace2)
                        | Some code \<Rightarrow>
                            if code = [] then
                              (Inr (Failure,
                                    js_set_property
                                      (PropertySystemCodeGenResult (telemetryConsts env))
                                      (Some (JString ''false'')) spec3),
                               trace1 @ trace2)
                            else
                              (let spec4 =
                                     js_set_property
                                       (PropertySystemCodeGenResult (telemetryConsts env))
                                       (Some (JString ''true'')) spec3
                               in (Inr (Success,
                                        spec4\<lparr> js_appendix := (js_appendix spec4)
                                                 \<lparr> js_codeSnippet := code \<rparr> \<rparr>),
                                   trace1 @ trace2)))))"

text \<open>
  \<^verbatim>\<open>invoke\<close> takes a spec of the declared types and returns the spec as it is afterwards.
  The breakdown's result is used as it was parsed: \<^verbatim>\<open>!breakdownResult\<close> and
  \<^verbatim>\<open>!breakdownResult.shouldContinue\<close> test truthiness, and the members \<^verbatim>\<open>data\<close>,
  \<^verbatim>\<open>host\<close>, \<^verbatim>\<open>customFunctions\<close> and \<^verbatim>\<open>complexity\<close> are copied whatever they are.
  A thrown error ends \<^verbatim>\<open>invoke\<close>: the outcome is then the error, with the trace of
  what had been done by then.
\<close>

definition invoke ::
  "cg_env \<Rightarrow> real \<Rightarrow> real \<Rightarrow> ChatRequest \<Rightarrow> Spec
     \<Rightarrow> (cg_error + ExecutionResultEnum \<times> JsSpec) \<times> cg_event list" where
  "invoke env t0 t1 request spec =
     (case breakdown_guard spec of
        Inl e \<Rightarrow> (Inl e, [])
      | Inr False \<Rightarrow> invoke_generate env t0 t1 request (js_of_spec spec) []
      | Inr True \<Rightarrow>
         (case userInputBreakdownTaskAsync env request of
            (breakdownResult, trace') \<Rightarrow>
              (let trace = [Progress ''Identify code-generation scenarios...'',
                            Call_userInputBreakdownTaskAsync] @ trace'
               in case breakdownResult of
                    None \<Rightarrow>
                      (Inr (Failure,
                            js_of_spec
                              (count_measurement
                                 (MeasurementSystemCodegenTaskBreakdownAttemptFailedCount
                                    (telemetryConsts env)) 1 spec)),
                       trace)
                  | Some v \<Rightarrow>
                      if falsy (Some v) then
                        (Inr (Failure,
                              js_of_spec
                                (count_measurement
                                   (MeasurementSystemCodegenTaskBreakdownAttemptFailedCount
                                      (telemetryConsts env)) 1 spec)),
                         trace)
                      else if falsy (get_prop v ''shouldContinue'') then
                        (Inr (Rejected,
                              (js_of_spec spec)\<lparr> js_sections := get_prop v ''data'' \<rparr>),
                         trace)
                      else
                        invoke_generate env t0 t1 request
                          ((js_of_spec spec)
                             \<lparr> js_appendix := (js_appendix (js_of_spec spec))
                                 \<lparr> js_host := get_prop v ''host'',
                                   js_codeTaskBreakdown := get_prop v ''data'',
                                   js_isCustomFunction := get_prop v ''customFunctions'',
                                   js_complexity := get_prop v ''complexity'' \<rparr> \<rparr>)
                          trace)))"

subsection \<open>Reading a trace\<close>

text \<open>The model names of the requests to the remote model, in order.\<close>

fun requested_models :: "cg_event list \<Rightarrow> string list" where
  "requested_models [] = []"
| "requested_models (CopilotResponse model messages answer # es) = model # requested_models es"
| "requested_models (e # es) = requested_models es"

text \<open>The messages of the requests to the remote model, in order.\<close>

fun sent_messages :: "cg_event list \<Rightarrow> message list list" where
  "sent_messages [] = []"
| "sent_messages (CopilotResponse model messages answer # es) = messages # sent_messages es"
| "sent_messages (e # es) = sent_messages es"

text \<open>The answers of the remote model, in order.\<close>

fun received_answers :: "cg_event list \<Rightarrow> string list" where
  "received_answers [] = []"
| "received_answers (CopilotResponse model messages answer # es) = answer # received_answers es"
| "received_answers (e # es) = received_answers es"

text \<open>The numbers of samples asked of the sample provider, in order.\<close>

fun sample_queries :: "cg_event list \<Rightarrow> nat list" where
  "sample_queries [] = []"
| "sample_queries (SampleQuery h p k # es) = k # sample_queries es"
| "sample_queries (SampleQueryAny h p k # es) = k # sample_queries es"
| "sample_queries (e # es) = sample_queries es"

subsection \<open>The statements of the specification in the terms of the model\<close>

text \<open>
  A text contains a fenced block of a language when an opening fence followed by the
  language's name is followed, somewhere later, by a closing fence. Its first block is
  the one with the leftmost opening fence, closed by the nearest closing fence.
\<close>

definition contains_fenced_block :: "string \<Rightarrow> string \<Rightarrow> bool" where
  "contains_fenced_block lang s \<longleftrightarrow>
     (\<exists>pre body post. s = pre @ (fence @ lang) @ body @ fence @ post)"

definition first_fenced_block :: "string \<Rightarrow> string \<Rightarrow> string \<Rightarrow> bool" where
  "first_fenced_block lang s body \<longleftrightarrow>
     (\<exists>pre post.
        s = pre @ (fence @ lang) @ body @ fence @ post
        \<and> (\<forall>pre' rest. s = pre' @ (fence @ lang) @ rest \<longrightarrow> length pre \<le> length pre')
        \<and> (\<forall>body' rest. body @ fence @ post = body' @ fence @ rest
              \<longrightarrow> length body \<le> length body'))"

text \<open>
  The order of parsing as the specification words it: "first attempting direct parse,
  falling back to extracting a fenced json block via pattern match".
\<close>

definition parse_direct_first :: "(string \<Rightarrow> json option) \<Rightarrow> string \<Rightarrow> json option" where
  \<open>parse_direct_first parse response =
     (case parse (trim response) of
        Some v \<Rightarrow> Some v
      | None \<Rightarrow>
         (case match_fenced ''```json'' response of
            None \<Rightarrow> None
          | Some group1 \<Rightarrow> parse (trim group1)))\<close>

text \<open>
  What \<^verbatim>\<open>userInputBreakdownTaskAsync\<close> returns for the outcome of its one call of
  \<^verbatim>\<open>JSON.parse\<close>: \<^verbatim>\<open>null\<close> when the parse fails, when it gives \<^verbatim>\<open>null\<close>, and when the
  member \<^verbatim>\<open>complexity\<close> of the parsed value cannot be converted to a string; the parsed
  value otherwise.
\<close>

definition null_on_failure :: "json option \<Rightarrow> json option" where
  "null_on_failure parsed =
     (case parsed of
        None \<Rightarrow> None
      | Some v \<Rightarrow>
          if v = JNull \<or> throws (get_prop v ''complexity'') then None else Some v)"

text \<open>
  The system prompt with reference samples appended, as \<^verbatim>\<open>generateCode\<close> builds it:
  nothing is appended when there is no sample.
\<close>

definition with_samples :: "string \<Rightarrow> string list \<Rightarrow> string" where
  "with_samples base snippets =
     (if snippets = [] then base else base @ NL @ join_with NL snippets @ NL @ NL)"

subsection \<open>A concrete environment\<close>

definition test_prompts :: Prompts where
  "test_prompts =
     \<lparr> excelSystemPrompt = ''Let us think step by step.'',
       cfSystemPrompt = ''Custom functions. Let us think step by step.'',
       breakdownUserPrompt = (\<lambda>p. ''Assume this is a ask: '' @ p),
       breakdownSystemPrompt = ''The output should be just a JSON object.'',
       codegenUserPrompt = (\<lambda>p h tasks guidance. p @ NL @ h @ NL @ tasks @ NL @ guidance),
       codegenSystemPrompt = ''Samples:'' \<rparr>"

definition test_keys :: TelemetryConsts where
  "test_keys =
     \<lparr> MeasurementCodeGenAttemptCount = ''code-gen-attempt-count'',
       MeasurementCodeGenExecutionTimeInTotalSec = ''code-gen-execution-time'',
       MeasurementScenarioBasedSampleMatchedCount = ''sample-matched-count'',
       PropertySystemCodeGenIsCustomFunction = ''is-custom-function'',
       PropertySystemCodeGenResult = ''code-gen-result'',
       PropertySystemCodeGenTargetedOfficeHostApplication = ''targeted-host'',
       MeasurementSystemCodegenTaskBreakdownAttemptFailedCount = ''breakdown-failed-count'' \<rparr>"

text \<open>
  The remote model of this environment answers a request of two messages (the breakdown)
  with the first text and every other request with the second one; its sample provider
  answers with the first \<open>k\<close> of the given samples. Its conversion of a number to a
  string is right on the natural numbers and its conversion of a string to a number on
  the strings of the JSON number grammar; the runs below convert nothing else.
\<close>

fun digits_of :: "nat \<Rightarrow> nat \<Rightarrow> string" where
  "digits_of 0 n = []"
| "digits_of (Suc fuel) n =
     (if n < 10 then [char_of (48 + n)]
      else digits_of fuel (n div 10) @ [char_of (48 + n mod 10)])"

definition test_number_to_string :: "real \<Rightarrow> string" where
  "test_number_to_string x = digits_of (Suc (nat \<lfloor>x\<rfloor>)) (nat \<lfloor>x\<rfloor>)"

definition test_string_to_number :: "string \<Rightarrow> js_number" where
  "test_string_to_number str =
     (case parse_number str of
        None \<Rightarrow> NaN
      | Some (x, rest) \<Rightarrow> if rest = [] then Finite x else NaN)"

definition test_cg_env :: "string \<Rightarrow> string \<Rightarrow> (string \<times> SampleData) list \<Rightarrow> cg_env" where
  "test_cg_env breakdownAnswer codegenAnswer samples =
     \<lparr> getCopilotResponseAsString =
         (\<lambda>model messages. if length messages = 2 then breakdownAnswer else codegenAnswer),
       JSON_parse = json_parse,
       getTopKMostRelevantScenarioSampleCodes = (\<lambda>h p k. take k samples),
       getCodeGenerateGuidance = (\<lambda>h. ''Guidance for '' @ h),
       correctPropertyLoadSpelling = (\<lambda>code. code),
       prompts = test_prompts,
       telemetryConsts = test_keys,
       NumberToString = test_number_to_string,
       StringToNumber = test_string_to_number,
       getTopKMostRelevantScenarioSampleCodesAny = (\<lambda>h p k. take k samples),
       getCodeGenerateGuidanceAny = (\<lambda>h. ''Guidance'') \<rparr>"

definition test_request :: ChatRequest where
  "test_request = \<lparr> prompt = ''sum column A'' \<rparr>"

definition test_spec :: "real \<Rightarrow> Spec" where
  "test_spec c =
     \<lparr> sections = [],
       appendix =
         \<lparr> host = [], codeTaskBreakdown = Some [], isCustomFunction = False,
           complexity = c, codeSnippet = [],
           telemetryData = \<lparr> measurements = Map.empty, properties = Map.empty \<rparr> \<rparr> \<rparr>"

definition test_samples :: "(string \<times> SampleData) list" where
  "test_samples =
     [(''a'', \<lparr> description = ''first'', codeSample = ''f();'' \<rparr>),
      (''b'', \<lparr> description = ''second'', codeSample = ''g();'' \<rparr>),
      (''c'', \<lparr> description = ''third'', codeSample = ''h();'' \<rparr>)]"

definition test_code_answer :: string where
  \<open>test_code_answer = ''Here: ```typescript  main(); ``` and ```typescript other ```''\<close>

definition fenced_in_json :: string where
  \<open>fenced_in_json = ''{"data":["```json x```"]}''\<close>

definition test_rejection :: string where
  \<open>test_rejection = ''Sure: ```json {"host":"Excel","shouldContinue":false,"data":["not about Office"],"complexity":1,"customFunctions":false} ```''\<close>

definition test_breakdown :: string where
  \<open>test_breakdown = ''{"host":"Excel","shouldContinue":true,"data":["sum the column"],"complexity":60,"customFunctions":false}''\<close>

definition test_rejection_json :: json where
  "test_rejection_json =
     JObject [(''host'', JString ''Excel''), (''shouldContinue'', JBool False),
              (''data'', JArray [JString ''not about Office'']), (''complexity'', JNumber 1),
              (''customFunctions'', JBool False)]"

definition test_breakdown_json :: json where
  "test_breakdown_json =
     JObject [(''host'', JString ''Excel''), (''shouldContinue'', JBool True),
              (''data'', JArray [JString ''sum the column'']), (''complexity'', JNumber 60),
              (''customFunctions'', JBool False)]"

definition test_string_false :: string where
  \<open>test_string_false = ''{"host":"Excel","shouldContinue":"false","data":["sum the column"],"complexity":10,"customFunctions":false}''\<close>

definition test_string_false_json :: json where
  "test_string_false_json =
     JObject [(''host'', JString ''Excel''), (''shouldContinue'', JString ''false''),
              (''data'', JArray [JString ''sum the column'']), (''complexity'', JNumber 10),
              (''customFunctions'', JBool False)]"

definition test_unprintable :: string where
  \<open>test_unprintable = ''{"complexity":{"toString":null}}''\<close>

section \<open>Properties\<close>

subsection \<open>The fence patterns find the first fenced block\<close>

lemma starts_with_iff: "starts_with p s \<longleftrightarrow> (\<exists>r. s = p @ r)"
  by (induction p s rule: starts_with.induct) auto

lemma starts_with_drop: "starts_with p s \<Longrightarrow> s = p @ drop (length p) s"
  by (auto simp add: starts_with_iff)

lemma split_at_first_SomeD: "split_at_first p s = Some (b, a) \<Longrightarrow> s = b @ p @ a"
proof (induction s arbitrary: b)
  case Nil
  then show ?case by (simp split: if_splits)
next
  case (Cons c cs)
  show ?case
  proof (cases "starts_with p (c # cs)")
    case True
    with Cons.prems have "b = []" "a = drop (length p) (c # cs)" by simp_all
    with starts_with_drop [OF True] show ?thesis by simp
  next
    case False
    with Cons.prems obtain b' where "split_at_first p cs = Some (b', a)" "b = c # b'"
      by auto
    with Cons.IH show ?thesis by simp
  qed
qed

lemma split_at_first_least:
  "split_at_first p s = Some (b, a) \<Longrightarrow> s = b' @ p @ a' \<Longrightarrow> length b \<le> length b'"
proof (induction s arbitrary: b b')
  case Nil
  then show ?case by (simp split: if_splits)
next
  case (Cons c cs)
  show ?case
  proof (cases "starts_with p (c # cs)")
    case True
    with Cons.prems(1) have "b = []" by simp
    then show ?thesis by simp
  next
    case False
    with Cons.prems(1) obtain b0 where b0: "split_at_first p cs = Some (b0, a)" "b = c # b0"
      by auto
    from False Cons.prems(2) have "b' \<noteq> []"
      by (auto simp add: starts_with_iff)
    then obtain b1 where "b' = c # b1" "cs = b1 @ p @ a'"
      using Cons.prems(2) by (cases b') auto
    with Cons.IH [OF b0(1)] b0(2) show ?thesis by simp
  qed
qed

lemma split_at_first_complete: "s = b' @ p @ a' \<Longrightarrow> split_at_first p s \<noteq> None"
proof (induction b' arbitrary: s)
  case Nil
  then have sw: "starts_with p s" by (simp add: starts_with_iff)
  show ?case
  proof (cases s)
    case Nil
    with sw show ?thesis by (cases p) simp_all
  next
    case (Cons c cs)
    with sw show ?thesis by simp
  qed
next
  case (Cons x xs)
  then show ?case by auto
qed

lemma drop_within_prefix: "n \<le> length xs \<Longrightarrow> drop n (xs @ ys) = drop n xs @ ys"
  by simp

lemma fence_nonempty: "fence \<noteq> []"
  by (simp add: fence_def)

lemma match_fenced_eq:
  "match_fenced opening s =
     (case split_at_first opening s of
        None \<Rightarrow> None
      | Some (pre, r) \<Rightarrow> map_option fst (split_at_first fence r))"
proof (induction s)
  case Nil
  then show ?case by (simp add: fence_nonempty)
next
  case (Cons c cs)
  show ?case
  proof (cases "starts_with opening (c # cs)")
    case False
    with Cons.IH show ?thesis by (simp split: option.splits)
  next
    case True
    show ?thesis
    proof (cases "split_at_first fence (drop (length opening) (c # cs))")
      case (Some ba)
      with True show ?thesis by (cases ba) simp
    next
      case None
      have "match_fenced opening cs = None"
      proof (cases "split_at_first opening cs")
        case None
        with Cons.IH show ?thesis by simp
      next
        case (Some pr)
        obtain pre r where pr: "pr = (pre, r)" by (cases pr)
        from Some pr have cs: "cs = pre @ opening @ r"
          by (simp add: split_at_first_SomeD)
        have "split_at_first fence r = None"
        proof (rule ccontr)
          assume "split_at_first fence r \<noteq> None"
          then obtain g t where "split_at_first fence r = Some (g, t)" by auto
          then have r: "r = g @ fence @ t" by (rule split_at_first_SomeD)
          have "drop (length opening) (c # cs)
                  = (drop (length opening) (c # pre @ opening) @ g) @ fence @ t"
            using cs r drop_within_prefix [of "length opening" "c # pre @ opening" "g @ fence @ t"]
            by simp
          from split_at_first_complete [OF this] None show False by simp
        qed
        with Cons.IH Some pr show ?thesis by simp
      qed
      with True None show ?thesis by simp
    qed
  qed
qed

lemma match_fenced_None_iff:
  "match_fenced (fence @ lang) s = None \<longleftrightarrow> \<not> contains_fenced_block lang s"
proof
  assume none: "match_fenced (fence @ lang) s = None"
  show "\<not> contains_fenced_block lang s"
  proof
    assume "contains_fenced_block lang s"
    then obtain pre body post where s: "s = pre @ (fence @ lang) @ body @ fence @ post"
      by (auto simp add: contains_fenced_block_def)
    then obtain pre0 r0 where sp: "split_at_first (fence @ lang) s = Some (pre0, r0)"
      using split_at_first_complete [of s pre "fence @ lang" "body @ fence @ post"] by auto
    have s0: "s = pre0 @ (fence @ lang) @ r0" using sp by (rule split_at_first_SomeD)
    have le: "length pre0 \<le> length pre" using sp s by (rule split_at_first_least)
    have "r0 = drop (length pre0 + length (fence @ lang)) s" using s0 by simp
    also have "\<dots> = (drop (length pre0 + length (fence @ lang)) (pre @ (fence @ lang)) @ body)
                       @ fence @ post"
      using le by (subst s) simp
    finally have "split_at_first fence r0 \<noteq> None" by (rule split_at_first_complete)
    with none sp show False by (simp add: match_fenced_eq)
  qed
next
  assume no: "\<not> contains_fenced_block lang s"
  show "match_fenced (fence @ lang) s = None"
  proof (rule ccontr)
    assume "match_fenced (fence @ lang) s \<noteq> None"
    then obtain pre r g t where "split_at_first (fence @ lang) s = Some (pre, r)"
        "split_at_first fence r = Some (g, t)"
      by (auto simp add: match_fenced_eq split: option.splits)
    then have "s = pre @ (fence @ lang) @ g @ fence @ t"
      by (auto dest!: split_at_first_SomeD)
    with no show False unfolding contains_fenced_block_def by blast
  qed
qed

lemma split_at_first_unique:
  assumes "s = b @ p @ a" and "\<forall>b' a'. s = b' @ p @ a' \<longrightarrow> length b \<le> length b'"
  shows "split_at_first p s = Some (b, a)"
proof -
  from assms(1) obtain b0 a0 where sp: "split_at_first p s = Some (b0, a0)"
    using split_at_first_complete [of s b p a] by auto
  have s0: "s = b0 @ p @ a0" using sp by (rule split_at_first_SomeD)
  have "length b0 \<le> length b" using sp assms(1) by (rule split_at_first_least)
  moreover have "length b \<le> length b0" using assms(2) s0 by blast
  ultimately have "length b0 = length b" by simp
  with s0 assms(1) have "b0 = b \<and> a0 = a" by auto
  with sp show ?thesis by simp
qed

lemma match_fenced_Some_iff:
  "match_fenced (fence @ lang) s = Some body \<longleftrightarrow> first_fenced_block lang s body"
proof
  assume "match_fenced (fence @ lang) s = Some body"
  then obtain pre r t where sp: "split_at_first (fence @ lang) s = Some (pre, r)"
      and sf: "split_at_first fence r = Some (body, t)"
    by (auto simp add: match_fenced_eq split: option.splits)
  have r: "r = body @ fence @ t" using sf by (rule split_at_first_SomeD)
  have s: "s = pre @ (fence @ lang) @ body @ fence @ t"
    using split_at_first_SomeD [OF sp] r by simp
  have "\<forall>pre' rest. s = pre' @ (fence @ lang) @ rest \<longrightarrow> length pre \<le> length pre'"
    using split_at_first_least [OF sp] by blast
  moreover have "\<forall>body' rest. body @ fence @ t = body' @ fence @ rest
                   \<longrightarrow> length body \<le> length body'"
    using split_at_first_least [OF sf] r by blast
  ultimately show "first_fenced_block lang s body"
    unfolding first_fenced_block_def using s by blast
next
  assume "first_fenced_block lang s body"
  then obtain pre post where s: "s = pre @ (fence @ lang) @ body @ fence @ post"
      and m1: "\<forall>pre' rest. s = pre' @ (fence @ lang) @ rest \<longrightarrow> length pre \<le> length pre'"
      and m2: "\<forall>body' rest. body @ fence @ post = body' @ fence @ rest
                 \<longrightarrow> length body \<le> length body'"
    unfolding first_fenced_block_def by blast
  have "split_at_first (fence @ lang) s = Some (pre, body @ fence @ post)"
    using s m1 by (intro split_at_first_unique) auto
  moreover have "split_at_first fence (body @ fence @ post) = Some (body, post)"
    using m2 by (intro split_at_first_unique) auto
  ultimately show "match_fenced (fence @ lang) s = Some body"
    by (simp add: match_fenced_eq)
qed

subsection \<open>Properties of \<^verbatim>\<open>path.join\<close> and of the deploy action\<close>

lemma normalize_nonempty: "normalize path \<noteq> []"
  by (simp add: normalize_def Let_def)

lemma path_join_nonempty: "path_join args \<noteq> []"
  by (simp add: path_join_def Let_def normalize_nonempty)

lemma CheckThrowSomethingMissing_Inl:
  "CheckThrowSomethingMissing name v = Inl e \<longleftrightarrow> v = None \<and> e = SomethingMissing name"
  by (cases v) auto

lemma test_working_dir:
  "path_join [projectPath test_inputs, folder test_inputs] = ''/home/app/api''"
  by (simp add: test_inputs_def path_join_def normalize_def normalizeString_def)

text \<open>
  C6. When the working directory (the project path joined with the folder) does not exist
  on disk, the execute callback of the deploy action throws
  \<^verbatim>\<open>PackDirectoryExistenceError\<close>; all it has done by then is to write the log line and
  to probe the file system: the directory is not zipped and the deployment API is not
  called.
\<close>

theorem deploy_missing_directory:
  assumes "\<not> fs_pathExists env (path_join [projectPath inputs, folder inputs])"
  shows "deploy_execute env ctx inputs =
           (Inl PackDirectoryExistenceError,
            [LogInfo (Messages_DeployingBot env),
             PathExists (path_join [projectPath inputs, folder inputs])])
         \<and> filter is_zip_or_deploy (snd (deploy_execute env ctx inputs)) = []"
  using assms by (simp add: deploy_execute_def Let_def path_join_nonempty)

theorem deploy_missing_directory_witness:
  "\<not> fs_pathExists (test_env False) (path_join [projectPath test_inputs, folder test_inputs])
   \<and> deploy_execute (test_env False) (test_ctx None) test_inputs =
         (Inl PackDirectoryExistenceError,
          [LogInfo ''Deploying bot.'', PathExists ''/home/app/api''])
   \<and> filter is_zip_or_deploy (snd (deploy_execute (test_env False) (test_ctx None) test_inputs))
       = []"
proof -
  have h: "\<not> fs_pathExists (test_env False)
               (path_join [projectPath test_inputs, folder test_inputs])"
    by (simp add: test_env_def)
  show ?thesis
    using h deploy_missing_directory [OF h, of "test_ctx None"]
    by (simp add: test_working_dir test_env_def)
qed

text \<open>
  C7 (amended). When the working directory is on disk and the \<^verbatim>\<open>azure-function\<close> entry
  of the state exists but lacks the endpoint or the resource id, the execute callback
  throws the error that \<^verbatim>\<open>CheckThrowSomethingMissing\<close> raises, for the endpoint when
  that is absent and for the resource id otherwise. All it has done by then is to write
  the log line and to probe the file system: the directory is not zipped and the
  deployment API is not called.
\<close>

theorem deploy_missing_state:
  assumes dir: "fs_pathExists env (path_join [projectPath inputs, folder inputs])"
      and st: "envInfo_state ctx resource_name = Some states"
      and absent: "states outputs_endpoint_key = None \<or> states outputs_resourceId_key = None"
  shows "deploy_execute env ctx inputs =
           (Inl (SomethingMissing (if states outputs_endpoint_key = None
                                   then outputs_endpoint_key else outputs_resourceId_key)),
            [LogInfo (Messages_DeployingBot env),
             PathExists (path_join [projectPath inputs, folder inputs])])
       \<and> CheckThrowSomethingMissing
           (if states outputs_endpoint_key = None
            then outputs_endpoint_key else outputs_resourceId_key)
           (states (if states outputs_endpoint_key = None
                    then outputs_endpoint_key else outputs_resourceId_key))
         = Inl (SomethingMissing (if states outputs_endpoint_key = None
                                  then outputs_endpoint_key else outputs_resourceId_key))
       \<and> filter is_zip_or_deploy (snd (deploy_execute env ctx inputs)) = []"
  using assms
  by (cases "states outputs_endpoint_key"; cases "states outputs_resourceId_key")
     (simp_all add: deploy_execute_def Let_def path_join_nonempty)

theorem deploy_missing_state_witness:
  "fs_pathExists (test_env True) (path_join [projectPath test_inputs, folder test_inputs])
   \<and> envInfo_state (test_ctx (Some [''endpoint'' \<mapsto> ''https://f.example''])) resource_name
       = Some [''endpoint'' \<mapsto> ''https://f.example'']
   \<and> [''endpoint'' \<mapsto> ''https://f.example''] outputs_resourceId_key = None
   \<and> deploy_execute (test_env True)
         (test_ctx (Some [''endpoint'' \<mapsto> ''https://f.example''])) test_inputs
       = (Inl (SomethingMissing ''resourceId''),
          [LogInfo ''Deploying bot.'', PathExists ''/home/app/api''])"
proof -
  let ?states = "[''endpoint'' \<mapsto> ''https://f.example'']"
  have absent: "?states outputs_endpoint_key = None \<or> ?states outputs_resourceId_key = None"
    by (simp add: outputs_resourceId_key_def)
  have st: "envInfo_state (test_ctx (Some ?states)) resource_name = Some ?states"
    by (simp add: test_ctx_def resource_name_def)
  have dir: "fs_pathExists (test_env True)
               (path_join [projectPath test_inputs, folder test_inputs])"
    by (simp add: test_env_def)
  show ?thesis
    using deploy_missing_state [OF dir st absent] absent st dir
    by (simp add: outputs_endpoint_key_def outputs_resourceId_key_def test_working_dir
                  test_env_def)
qed

text \<open>
  The claim C7 as it is written, "when either the endpoint or the resourceId key is
  absent, a typed error is thrown by \<^verbatim>\<open>CheckThrowSomethingMissing\<close>", fails in two ways.
  With the endpoint absent and the working directory missing, the check of the directory
  comes first and throws \<^verbatim>\<open>PackDirectoryExistenceError\<close>. With no \<^verbatim>\<open>azure-function\<close>
  entry in the state, reading the endpoint from \<^verbatim>\<open>undefined\<close> throws a \<^verbatim>\<open>TypeError\<close>
  before \<^verbatim>\<open>CheckThrowSomethingMissing\<close> is called.
\<close>

theorem deploy_missing_state_counterexample:
  "Map.empty outputs_endpoint_key = (None :: string option)
   \<and> envInfo_state (test_ctx (Some Map.empty)) resource_name = Some Map.empty
   \<and> deploy_execute (test_env False) (test_ctx (Some Map.empty)) test_inputs
       = (Inl PackDirectoryExistenceError,
          [LogInfo ''Deploying bot.'', PathExists ''/home/app/api''])
   \<and> CheckThrowSomethingMissing outputs_endpoint_key (None :: string option)
       = Inl (SomethingMissing ''endpoint'')
   \<and> envInfo_state (test_ctx None) resource_name = None
   \<and> deploy_execute (test_env True) (test_ctx None) test_inputs
       = (Inl TypeError, [LogInfo ''Deploying bot.'', PathExists ''/home/app/api''])"
  by (simp add: deploy_execute_def Let_def test_working_dir test_env_def test_ctx_def
                resource_name_def outputs_endpoint_key_def)

text \<open>
  C10. \<^verbatim>\<open>path.join\<close> of the project path and the folder is never the empty string, so
  the test \<^verbatim>\<open>!workingDir\<close> is always false and the execute callback never throws the
  \<^verbatim>\<open>PreconditionError\<close> for a missing working directory.
\<close>

theorem working_dir_precondition_unreachable:
  "path_join [projectPath inputs, folder inputs] \<noteq> []
   \<and> fst (deploy_execute env ctx inputs) \<noteq> Inl (PreconditionError msg suggestions)"
  by (auto simp add: deploy_execute_def Let_def path_join_nonempty
                     CheckThrowSomethingMissing_Inl
           split: option.split sum.split)

theorem working_dir_precondition_unreachable_witness:
  "path_join [projectPath \<lparr> projectPath = [], folder = [] \<rparr>,
              folder \<lparr> projectPath = [], folder = [] \<rparr>] = ''.''
   \<and> fst (deploy_execute (test_env False) (test_ctx None) \<lparr> projectPath = [], folder = [] \<rparr>)
       \<noteq> Inl (PreconditionError ''Working directory is missing.'' [])"
  using working_dir_precondition_unreachable
          [of "\<lparr> projectPath = [], folder = [] \<rparr>" "test_env False" "test_ctx None"
              "''Working directory is missing.''" "[]"]
  by (simp add: path_join_def)

subsection \<open>Properties of \<^verbatim>\<open>generateCode\<close>\<close>

lemma complexity_set_property [simp]:
  "complexity (appendix (set_property key v spec)) = complexity (appendix spec)"
  by (simp add: set_property_def)

lemma complexity_count_measurement [simp]:
  "complexity (appendix (count_measurement key d spec)) = complexity (appendix spec)"
  by (simp add: count_measurement_def update_measurements_def)

lemma typescript_opening: \<open>''```typescript'' = fence @ ''typescript''\<close>
  by (simp add: fence_def)

lemma json_opening: \<open>''```json'' = fence @ ''json''\<close>
  by (simp add: fence_def)

lemma generateCode_trace:
  "snd (snd (generateCode env request h cf tasks spec)) =
     (let model = (if 50 \<le> complexity (appendix spec) then ''copilot-gpt-4''
                   else ''copilot-gpt-3.5-turbo'');
          messages =
            [LanguageModelChatSystemMessage
               (if h = ''Excel'' then
                  (if \<not> cf then excelSystemPrompt (prompts env) else cfSystemPrompt (prompts env))
                else []),
             LanguageModelChatSystemMessage
               (with_samples (if h = ''Excel'' then codegenSystemPrompt (prompts env) else [])
                  (map (\<lambda>(api, sample). sample_snippet sample)
                     (getTopKMostRelevantScenarioSampleCodes env h (prompt request) 2))),
             LanguageModelChatUserMessage
               (codegenUserPrompt (prompts env) (prompt request) h
                  (join_with NL (map (\<lambda>task. ''- '' @ task) tasks))
                  (getCodeGenerateGuidance env h))]
      in [SampleQuery h (prompt request) 2,
          CopilotResponse model messages (getCopilotResponseAsString env model messages)])"
  by (cases "h = ''Excel''";
      cases "getTopKMostRelevantScenarioSampleCodes env h (prompt request) 2 = []")
     (simp_all add: generateCode_def Let_def split_def with_samples_def
               split: option.split split del: if_split)

lemma generateCode_result:
  "fst (generateCode env request h cf tasks spec) =
     (case match_fenced (fence @ ''typescript'')
             (hd (received_answers (snd (snd (generateCode env request h cf tasks spec))))) of
        None \<Rightarrow> None
      | Some group1 \<Rightarrow> Some (correctPropertyLoadSpelling env (trim group1)))"
  by (simp add: generateCode_def Let_def split_def typescript_opening [symmetric]
           split: option.split split del: if_split)

text \<open>
  C1 (amended). \<^verbatim>\<open>generateCode\<close> sends exactly one request to the remote model. It
  goes to the stronger variant \<^verbatim>\<open>copilot-gpt-4\<close> if and only if the complexity stored in
  the spec is at least 50, and to the weaker variant \<^verbatim>\<open>copilot-gpt-3.5-turbo\<close> if and
  only if it is below 50.
\<close>

theorem codegen_model_selection:
  "\<exists>model. requested_models (snd (snd (generateCode env request h cf tasks spec))) = [model]
     \<and> (model = ''copilot-gpt-4'' \<longleftrightarrow> 50 \<le> complexity (appendix spec))
     \<and> (model = ''copilot-gpt-3.5-turbo'' \<longleftrightarrow> complexity (appendix spec) < 50)"
  by (simp add: generateCode_trace Let_def)

text \<open>
  The claim C1 as it is written, "the stronger model variant is selected if and only if
  the complexity exceeds 50", fails at a complexity of exactly 50: \<^verbatim>\<open>generateCode\<close>
  asks \<^verbatim>\<open>copilot-gpt-4\<close>, and 50 does not exceed 50.
\<close>

theorem codegen_model_at_50:
  "requested_models
     (snd (snd (generateCode (test_cg_env [] [] []) test_request ''Excel'' False []
                  (test_spec 50)))) = [''copilot-gpt-4'']
   \<and> \<not> (50 < complexity (appendix (test_spec 50)))"
  by (simp add: generateCode_trace Let_def test_spec_def)

theorem codegen_model_selection_witness:
  "requested_models
     (snd (snd (generateCode (test_cg_env [] [] []) test_request ''Excel'' False []
                  (test_spec 49.5)))) = [''copilot-gpt-3.5-turbo'']
   \<and> requested_models
     (snd (snd (generateCode (test_cg_env [] [] []) test_request ''Excel'' False []
                  (test_spec 50)))) = [''copilot-gpt-4'']"
  using codegen_model_selection [of "test_cg_env [] [] []" test_request "''Excel''" False "[]" "test_spec 49.5"]
        codegen_model_selection [of "test_cg_env [] [] []" test_request "''Excel''" False "[]" "test_spec 50"]
  by (auto simp add: test_spec_def)

lemma test_env_fields:
  "getCopilotResponseAsString (test_cg_env a c s) model [m1, m2] = a"
  "getCopilotResponseAsString (test_cg_env a c s) model [m1, m2, m3] = c"
  "JSON_parse (test_cg_env a c s) = json_parse"
  "prompts (test_cg_env a c s) = test_prompts"
  "telemetryConsts (test_cg_env a c s) = test_keys"
  "correctPropertyLoadSpelling (test_cg_env a c s) code = code"
  by (simp_all add: test_cg_env_def)

text \<open>
  C4. \<^verbatim>\<open>generateCode\<close> queries the sample provider and then sends one request to the
  remote model. It returns \<^verbatim>\<open>null\<close> if and only if the answer of the remote model to
  that request contains no fenced \<^verbatim>\<open>typescript\<close> block; when there is one, it returns
  the contents of the first such block, trimmed and passed through
  \<^verbatim>\<open>correctPropertyLoadSpelling\<close>.
\<close>

theorem generateCode_null_iff_no_block:
  "let model = (if 50 \<le> complexity (appendix spec) then ''copilot-gpt-4''
                else ''copilot-gpt-3.5-turbo'');
       messages =
         [LanguageModelChatSystemMessage
            (if h = ''Excel'' then
               (if \<not> cf then excelSystemPrompt (prompts env) else cfSystemPrompt (prompts env))
             else []),
          LanguageModelChatSystemMessage
            (with_samples (if h = ''Excel'' then codegenSystemPrompt (prompts env) else [])
               (map (\<lambda>(api, sample). sample_snippet sample)
                  (getTopKMostRelevantScenarioSampleCodes env h (prompt request) 2))),
          LanguageModelChatUserMessage
            (codegenUserPrompt (prompts env) (prompt request) h
               (join_with NL (map (\<lambda>task. ''- '' @ task) tasks))
               (getCodeGenerateGuidance env h))];
       answer = getCopilotResponseAsString env model messages
   in snd (snd (generateCode env request h cf tasks spec)) =
        [SampleQuery h (prompt request) 2, CopilotResponse model messages answer]
    \<and> (fst (generateCode env request h cf tasks spec) = None
          \<longleftrightarrow> \<not> contains_fenced_block ''typescript'' answer)
    \<and> (\<forall>body. first_fenced_block ''typescript'' answer body \<longrightarrow>
          fst (generateCode env request h cf tasks spec)
            = Some (correctPropertyLoadSpelling env (trim body)))"
proof -
  define model where "model = (if 50 \<le> complexity (appendix spec) then ''copilot-gpt-4''
                else ''copilot-gpt-3.5-turbo'')"
  define messages where "messages =
         [LanguageModelChatSystemMessage
            (if h = ''Excel'' then
               (if \<not> cf then excelSystemPrompt (prompts env) else cfSystemPrompt (prompts env))
             else []),
          LanguageModelChatSystemMessage
            (with_samples (if h = ''Excel'' then codegenSystemPrompt (prompts env) else [])
               (map (\<lambda>(api, sample). sample_snippet sample)
                  (getTopKMostRelevantScenarioSampleCodes env h (prompt request) 2))),
          LanguageModelChatUserMessage
            (codegenUserPrompt (prompts env) (prompt request) h
               (join_with NL (map (\<lambda>task. ''- '' @ task) tasks))
               (getCodeGenerateGuidance env h))]"
  define answer where "answer = getCopilotResponseAsString env model messages"
  have tr: "snd (snd (generateCode env request h cf tasks spec)) =
        [SampleQuery h (prompt request) 2, CopilotResponse model messages answer]"
    unfolding answer_def messages_def model_def generateCode_trace Let_def by (rule refl)
  have res: "fst (generateCode env request h cf tasks spec) =
               (case match_fenced (fence @ ''typescript'') answer of
                  None \<Rightarrow> None
                | Some group1 \<Rightarrow> Some (correctPropertyLoadSpelling env (trim group1)))"
    using generateCode_result [of env request h cf tasks spec] by (simp add: tr)
  have p1: "fst (generateCode env request h cf tasks spec) = None
          \<longleftrightarrow> \<not> contains_fenced_block ''typescript'' answer"
    using res match_fenced_None_iff [of "''typescript''" answer]
    by (auto split: option.splits)
  have p2: "\<forall>body. first_fenced_block ''typescript'' answer body \<longrightarrow>
           fst (generateCode env request h cf tasks spec)
             = Some (correctPropertyLoadSpelling env (trim body))"
    using res by (auto simp add: match_fenced_Some_iff [symmetric])
  from tr p1 p2 show ?thesis
    unfolding Let_def model_def [symmetric] messages_def [symmetric] answer_def [symmetric]
    by blast
qed

theorem generateCode_null_iff_no_block_witness:
  "first_fenced_block ''typescript'' test_code_answer ''  main(); ''
   \<and> fst (generateCode (test_cg_env [] test_code_answer []) test_request ''Excel'' False []
            (test_spec 0)) = Some ''main();''
   \<and> received_answers
         (snd (snd (generateCode (test_cg_env [] test_code_answer []) test_request ''Excel''
                      False [] (test_spec 0)))) = [test_code_answer]
   \<and> \<not> contains_fenced_block ''typescript'' ''no code''
   \<and> fst (generateCode (test_cg_env [] ''no code'' []) test_request ''Excel'' False []
            (test_spec 0)) = None"
proof -
  let ?run = "\<lambda>a. generateCode (test_cg_env [] a []) test_request ''Excel'' False [] (test_spec 0)"
  have block: "first_fenced_block ''typescript'' test_code_answer ''  main(); ''"
    unfolding match_fenced_Some_iff [symmetric]
    by (simp add: test_code_answer_def fence_def)
  have noblock: "\<not> contains_fenced_block ''typescript'' ''no code''"
    unfolding match_fenced_None_iff [symmetric]
    by (simp add: fence_def)
  have tm: "trim ''  main(); '' = ''main();''"
    by (simp add: trim_def is_js_whitespace_def)
  note t1 = generateCode_null_iff_no_block
         [of "test_spec 0" "''Excel''" False "test_cg_env [] test_code_answer []" test_request "[]",
          unfolded Let_def test_env_fields]
  note t2 = generateCode_null_iff_no_block
         [of "test_spec 0" "''Excel''" False "test_cg_env [] ''no code'' []" test_request "[]",
          unfolded Let_def test_env_fields]
  from t1 block have "fst (?run test_code_answer) = Some (trim ''  main(); '')"
    by blast
  then have r1: "fst (?run test_code_answer) = Some ''main();''"
    by (simp only: tm)
  from t1 have "received_answers (snd (snd (?run test_code_answer))) = [test_code_answer]"
    by simp
  moreover from t2 noblock have "fst (?run ''no code'') = None"
    by blast
  ultimately show ?thesis using block noblock r1 by simp
qed

text \<open>
  C8. \<^verbatim>\<open>generateCode\<close> queries the sample provider exactly once, for the top 2. The
  second system message is the system prompt with one snippet appended for each sample of
  the provider's answer; with a provider that answers a request for the top \<open>k\<close> with at
  most \<open>k\<close> samples, at most two snippets are appended.
\<close>

theorem generateCode_asks_for_two_samples:
  "sample_queries (snd (snd (generateCode env request h cf tasks spec))) = [2]
   \<and> (\<exists>reference userPrompt.
        sent_messages (snd (snd (generateCode env request h cf tasks spec))) =
          [[LanguageModelChatSystemMessage reference,
            LanguageModelChatSystemMessage
              (with_samples (if h = ''Excel'' then codegenSystemPrompt (prompts env) else [])
                 (map (\<lambda>(api, sample). sample_snippet sample)
                    (getTopKMostRelevantScenarioSampleCodes env h (prompt request) 2))),
            LanguageModelChatUserMessage userPrompt]])
   \<and> (honours_top_k (getTopKMostRelevantScenarioSampleCodes env) \<longrightarrow>
        length (map (\<lambda>(api, sample). sample_snippet sample)
                  (getTopKMostRelevantScenarioSampleCodes env h (prompt request) 2)) \<le> 2)"
  by (simp add: generateCode_trace Let_def honours_top_k_def)

theorem generateCode_asks_for_two_samples_witness:
  "honours_top_k (getTopKMostRelevantScenarioSampleCodes (test_cg_env [] [] test_samples))
   \<and> sample_queries
        (snd (snd (generateCode (test_cg_env [] [] test_samples) test_request ''Excel'' False []
                     (test_spec 0)))) = [2]
   \<and> length (map (\<lambda>(api, sample). sample_snippet sample)
               (getTopKMostRelevantScenarioSampleCodes (test_cg_env [] [] test_samples)
                  ''Excel'' (prompt test_request) 2)) = 2"
proof -
  have h: "honours_top_k (getTopKMostRelevantScenarioSampleCodes (test_cg_env [] [] test_samples))"
    by (simp add: honours_top_k_def test_cg_env_def)
  show ?thesis
    using h generateCode_asks_for_two_samples
              [of "test_cg_env [] [] test_samples" test_request "''Excel''" False "[]" "test_spec 0"]
    by (simp add: test_cg_env_def test_samples_def)
qed

subsection \<open>Properties of \<^verbatim>\<open>userInputBreakdownTaskAsync\<close> and of \<^verbatim>\<open>invoke\<close>\<close>

lemma userInputBreakdownTaskAsync_eq:
  "userInputBreakdownTaskAsync env request =
     (let messages =
            [LanguageModelChatSystemMessage (breakdownSystemPrompt (prompts env)),
             LanguageModelChatUserMessage (breakdownUserPrompt (prompts env) (prompt request))];
          answer = getCopilotResponseAsString env ''copilot-gpt-3.5-turbo'' messages;
          selected = trim (case match_fenced (fence @ ''json'') answer of
                             None \<Rightarrow> answer | Some group1 \<Rightarrow> group1)
      in (null_on_failure (JSON_parse env selected),
          [CopilotResponse ''copilot-gpt-3.5-turbo'' messages answer, JsonParse selected]))"
  by (simp add: userInputBreakdownTaskAsync_def Let_def null_on_failure_def
                json_opening [symmetric]
           split: option.split)

lemma null_on_failure_None_iff:
  "null_on_failure parsed = None \<longleftrightarrow>
     parsed = None \<or> parsed = Some JNull
     \<or> (\<exists>v. parsed = Some v \<and> throws (get_prop v ''complexity''))"
  by (cases parsed) (simp_all add: null_on_failure_def)

lemma null_on_failure_Some:
  "v \<noteq> JNull \<Longrightarrow> \<not> throws (get_prop v ''complexity'') \<Longrightarrow> null_on_failure (Some v) = Some v"
  by (simp add: null_on_failure_def)

lemma null_on_failure_SomeD:
  "null_on_failure parsed = Some v \<Longrightarrow> parsed = Some v"
  by (cases parsed) (simp_all add: null_on_failure_def split: if_splits)

lemma sample_query_not_call:
  "sample_query h p k \<noteq> Call_generateCode"
  "sample_query h p k \<noteq> Call_userInputBreakdownTaskAsync"
  by (simp_all add: sample_query_def split: option.split)

lemma js_complexity_js_set_property [simp]:
  "js_complexity (js_appendix (js_set_property key v spec)) = js_complexity (js_appendix spec)"
  by (simp add: js_set_property_def)

lemma js_complexity_js_update_measurements [simp]:
  "js_complexity (js_appendix (js_update_measurements f spec)) = js_complexity (js_appendix spec)"
  by (simp add: js_update_measurements_def)

lemma js_complexity_js_count_measurement [simp]:
  "js_complexity (js_appendix (js_count_measurement key d spec)) = js_complexity (js_appendix spec)"
  by (simp add: js_count_measurement_def)

lemma generateCode_js_events:
  "set (snd (generateCode_js env request h cf tasks spec))
     \<subseteq> {sample_query h (prompt request) 2} \<union> {e. \<exists>model messages answer. e = CopilotResponse model messages answer}"
proof (cases "throws h")
  case True
  then show ?thesis by (simp add: generateCode_js_def)
next
  case nh: False
  show ?thesis
  proof (cases "\<exists>ts. tasks = Some (JArray ts)")
    case False
    with nh show ?thesis
      by (simp add: generateCode_js_def split: option.split json.split)
  next
    case True
    then obtain ts where ts: "tasks = Some (JArray ts)" by blast
    show ?thesis
    proof (cases "(\<exists>task \<in> set ts. to_string_throws task)
                  \<or> cf = None \<or> cf = Some JNull \<or> throws cf")
      case True
      with nh ts show ?thesis
        by (auto simp add: generateCode_js_def)
    next
      case False
      then obtain c where c: "cf = Some c" "c \<noteq> JNull" "\<not> to_string_throws c"
        by (cases cf) auto
      from False have nt: "\<not> (\<exists>task \<in> set ts. to_string_throws task)" by blast
      from nh ts c nt show ?thesis
        by (cases "js_ge env (js_complexity (js_appendix spec)) 50")
           (simp_all add: generateCode_js_def Let_def split: option.split split del: if_split)
    qed
  qed
qed

lemma js_fields_js_count_measurement [simp]:
  "js_host (js_appendix (js_count_measurement key d spec)) = js_host (js_appendix spec)"
  "js_isCustomFunction (js_appendix (js_count_measurement key d spec))
     = js_isCustomFunction (js_appendix spec)"
  "js_codeTaskBreakdown (js_appendix (js_count_measurement key d spec))
     = js_codeTaskBreakdown (js_appendix spec)"
  by (simp_all add: js_count_measurement_def js_update_measurements_def)

lemma invoke_generate_trace:
  "snd (invoke_generate env t0 t1 request spec trace) =
     (case js_ge env (js_complexity (js_appendix spec)) 50 of
        Inl e \<Rightarrow> trace
      | Inr high \<Rightarrow>
          trace
          @ [Progress (if high then
                         ''This is a task with high complexity, may take a little bit longer...''
                         @ ''generating code...''
                       else
                         ''We should be able to generate the code in a short while...''
                         @ ''generating code...''),
             Call_generateCode]
          @ snd (generateCode_js env request (js_host (js_appendix spec))
                   (js_isCustomFunction (js_appendix spec))
                   (js_codeTaskBreakdown (js_appendix spec))
                   (js_count_measurement (MeasurementCodeGenAttemptCount (telemetryConsts env))
                      1 spec)))"
proof (cases "js_ge env (js_complexity (js_appendix spec)) 50")
  case (Inl e)
  then show ?thesis by (simp add: invoke_generate_def Let_def)
next
  case (Inr high)
  let ?spec1 = "js_count_measurement (MeasurementCodeGenAttemptCount (telemetryConsts env)) 1 spec"
  obtain r tr2 where g: "generateCode_js env request (js_host (js_appendix spec))
                   (js_isCustomFunction (js_appendix spec))
                   (js_codeTaskBreakdown (js_appendix spec)) ?spec1 = (r, tr2)"
    by (cases "generateCode_js env request (js_host (js_appendix spec))
                   (js_isCustomFunction (js_appendix spec))
                   (js_codeTaskBreakdown (js_appendix spec)) ?spec1") auto
  show ?thesis
  proof (cases r)
    case e: (Inl e)
    with Inr g show ?thesis
      by (simp add: invoke_generate_def Let_def split del: if_split)
  next
    case ok: (Inr res)
    obtain c s2 where res: "res = (c, s2)" by (cases res) auto
    show ?thesis
    proof (cases c)
      case None
      with Inr g ok res show ?thesis
        by (simp add: invoke_generate_def Let_def split del: if_split)
    next
      case (Some code)
      with Inr g ok res show ?thesis
        by (cases "code = []") (simp_all add: invoke_generate_def Let_def split del: if_split)
    qed
  qed
qed

lemma count_generate_trace:
  "count_list (snd (invoke_generate env t0 t1 request spec trace)) Call_userInputBreakdownTaskAsync
     = count_list trace Call_userInputBreakdownTaskAsync"
proof -
  have "Call_userInputBreakdownTaskAsync \<notin> set (snd (generateCode_js env request h cf tasks s))"
    for h cf tasks s
    using generateCode_js_events [of env request h cf tasks s]
          sample_query_not_call(2) [of h "prompt request" 2]
    by auto
  then have "count_list (snd (generateCode_js env request h cf tasks s))
               Call_userInputBreakdownTaskAsync = 0" for h cf tasks s
    by (simp add: count_list_0_iff)
  then show ?thesis
    by (cases "js_ge env (js_complexity (js_appendix spec)) 50")
       (simp_all add: invoke_generate_trace split del: if_split)
qed

lemma generate_in_trace:
  "js_ge env (js_complexity (js_appendix spec)) 50 = Inr high \<Longrightarrow>
     Call_generateCode \<in> set (snd (invoke_generate env t0 t1 request spec trace))"
  by (simp add: invoke_generate_trace split del: if_split)

lemma breakdown_trace_events:
  "Call_generateCode \<notin> set (snd (userInputBreakdownTaskAsync env request))"
  "count_list (snd (userInputBreakdownTaskAsync env request)) Call_userInputBreakdownTaskAsync = 0"
  by (simp_all add: userInputBreakdownTaskAsync_eq Let_def)

lemma invoke_failure:
  assumes "breakdown_guard spec = Inr True"
      and "falsy (fst (userInputBreakdownTaskAsync env request))"
  shows "invoke env t0 t1 request spec =
           (Inr (Failure,
                 js_of_spec
                   (count_measurement
                      (MeasurementSystemCodegenTaskBreakdownAttemptFailedCount
                         (telemetryConsts env)) 1 spec)),
            [Progress ''Identify code-generation scenarios...'',
             Call_userInputBreakdownTaskAsync] @ snd (userInputBreakdownTaskAsync env request))"
proof (cases "userInputBreakdownTaskAsync env request")
  case (Pair r tr)
  with assms show ?thesis
    by (cases r) (simp_all add: invoke_def Let_def)
qed

lemma invoke_rejected:
  assumes "breakdown_guard spec = Inr True"
      and "fst (userInputBreakdownTaskAsync env request) = Some v"
      and "\<not> falsy (Some v)"
      and "falsy (get_prop v ''shouldContinue'')"
  shows "invoke env t0 t1 request spec =
           (Inr (Rejected, (js_of_spec spec)\<lparr> js_sections := get_prop v ''data'' \<rparr>),
            [Progress ''Identify code-generation scenarios...'',
             Call_userInputBreakdownTaskAsync] @ snd (userInputBreakdownTaskAsync env request))"
  using assms
  by (cases "userInputBreakdownTaskAsync env request") (simp add: invoke_def Let_def)

lemma invoke_continue:
  assumes "breakdown_guard spec = Inr True"
      and "fst (userInputBreakdownTaskAsync env request) = Some v"
      and "\<not> falsy (Some v)"
      and "\<not> falsy (get_prop v ''shouldContinue'')"
  shows "invoke env t0 t1 request spec =
           invoke_generate env t0 t1 request
             ((js_of_spec spec)
                \<lparr> js_appendix := (js_appendix (js_of_spec spec))
                    \<lparr> js_host := get_prop v ''host'',
                      js_codeTaskBreakdown := get_prop v ''data'',
                      js_isCustomFunction := get_prop v ''customFunctions'',
                      js_complexity := get_prop v ''complexity'' \<rparr> \<rparr>)
             ([Progress ''Identify code-generation scenarios...'',
               Call_userInputBreakdownTaskAsync] @ snd (userInputBreakdownTaskAsync env request))"
  using assms
  by (cases "userInputBreakdownTaskAsync env request") (simp add: invoke_def Let_def)

lemma invoke_skipped:
  "breakdown_guard spec = Inr False \<Longrightarrow>
     invoke env t0 t1 request spec = invoke_generate env t0 t1 request (js_of_spec spec) []"
  by (simp add: invoke_def)

lemma invoke_guard_throws:
  "breakdown_guard spec = Inl e \<Longrightarrow> invoke env t0 t1 request spec = (Inl e, [])"
  by (simp add: invoke_def)

lemma invoke_runs_breakdown_once:
  assumes g: "breakdown_guard spec = Inr True"
  shows "(\<exists>rest. snd (invoke env t0 t1 request spec) =
                   Progress ''Identify code-generation scenarios...''
                   # Call_userInputBreakdownTaskAsync
                   # snd (userInputBreakdownTaskAsync env request) @ rest)
       \<and> count_list (snd (invoke env t0 t1 request spec)) Call_userInputBreakdownTaskAsync = 1"
proof (cases "falsy (fst (userInputBreakdownTaskAsync env request))")
  case True
  from invoke_failure [OF g True, of t0 t1] show ?thesis
    by (simp add: breakdown_trace_events)
next
  case False
  then obtain v where v: "fst (userInputBreakdownTaskAsync env request) = Some v"
    by (cases "fst (userInputBreakdownTaskAsync env request)") auto
  with False have nf: "\<not> falsy (Some v)" by simp
  show ?thesis
  proof (cases "falsy (get_prop v ''shouldContinue'')")
    case True
    from invoke_rejected [OF g v nf True, of t0 t1] show ?thesis
      by (simp add: breakdown_trace_events)
  next
    case False
    note inv = invoke_continue [OF g v nf False, of t0 t1]
    have "\<exists>rest. snd (invoke env t0 t1 request spec) =
                   Progress ''Identify code-generation scenarios...''
                   # Call_userInputBreakdownTaskAsync
                   # snd (userInputBreakdownTaskAsync env request) @ rest"
      unfolding inv
      by (cases "js_ge env (get_prop v ''complexity'') 50")
         (simp_all add: invoke_generate_trace split del: if_split)
    moreover have "count_list (snd (invoke env t0 t1 request spec))
                     Call_userInputBreakdownTaskAsync = 1"
      unfolding inv by (simp add: count_generate_trace breakdown_trace_events)
    ultimately show ?thesis by simp
  qed
qed

text \<open>
  C9. Whenever \<^verbatim>\<open>spec.appendix.codeTaskBreakdown\<close> is an array, empty or not, the guard
  of the breakdown stage is true and \<^verbatim>\<open>invoke\<close> runs the breakdown stage, exactly once,
  whatever the stored host and the stored list are.
\<close>

theorem breakdown_stage_always_runs:
  assumes "codeTaskBreakdown (appendix spec) = Some tasks"
  shows "breakdown_guard spec = Inr True
       \<and> (\<exists>rest. snd (invoke env t0 t1 request spec) =
                   Progress ''Identify code-generation scenarios...''
                   # Call_userInputBreakdownTaskAsync
                   # snd (userInputBreakdownTaskAsync env request) @ rest)
       \<and> count_list (snd (invoke env t0 t1 request spec)) Call_userInputBreakdownTaskAsync = 1"
proof -
  from assms have g: "breakdown_guard spec = Inr True"
    by (simp add: breakdown_guard_def)
  with invoke_runs_breakdown_once [OF g, of env t0 t1 request] show ?thesis by simp
qed

lemma count_measurement_eq:
  "count_measurement key d spec =
     update_measurements (\<lambda>m. m(key \<mapsto> (case m key of None \<Rightarrow> 0 | Some x \<Rightarrow> x) + d)) spec"
proof -
  have "(add_to_measurement key d \<circ> init_measurement key) m
          = m(key \<mapsto> (case m key of None \<Rightarrow> 0 | Some x \<Rightarrow> x) + d)" for m
    by (cases "m key") (auto simp add: add_to_measurement_def init_measurement_def)
  then have "add_to_measurement key d \<circ> init_measurement key
               = (\<lambda>m. m(key \<mapsto> (case m key of None \<Rightarrow> 0 | Some x \<Rightarrow> x) + d))"
    by (rule ext)
  then show ?thesis by (simp add: count_measurement_def)
qed

text \<open>
  C2 (amended). \<^verbatim>\<open>userInputBreakdownTaskAsync\<close> first looks for a fenced \<^verbatim>\<open>json\<close>
  block by pattern match. When the answer of the remote model contains one, it calls
  \<^verbatim>\<open>JSON.parse\<close> once, on the trimmed contents of the first such block, and never on
  the whole answer; only when the answer contains none does it parse the whole trimmed
  answer. The two orders give the same result whenever the answer contains no fenced
  block or its direct parse fails.
\<close>

theorem breakdown_parses_fenced_block_first:
  "let messages =
         [LanguageModelChatSystemMessage (breakdownSystemPrompt (prompts env)),
          LanguageModelChatUserMessage (breakdownUserPrompt (prompts env) (prompt request))];
       answer = getCopilotResponseAsString env ''copilot-gpt-3.5-turbo'' messages
   in (\<forall>body. first_fenced_block ''json'' answer body \<longrightarrow>
         userInputBreakdownTaskAsync env request =
           (null_on_failure (JSON_parse env (trim body)),
            [CopilotResponse ''copilot-gpt-3.5-turbo'' messages answer, JsonParse (trim body)]))
    \<and> (\<not> contains_fenced_block ''json'' answer \<longrightarrow>
         userInputBreakdownTaskAsync env request =
           (null_on_failure (JSON_parse env (trim answer)),
            [CopilotResponse ''copilot-gpt-3.5-turbo'' messages answer,
             JsonParse (trim answer)]))
    \<and> (\<not> contains_fenced_block ''json'' answer \<or> JSON_parse env (trim answer) = None \<longrightarrow>
         fst (userInputBreakdownTaskAsync env request)
           = null_on_failure (parse_direct_first (JSON_parse env) answer))"
proof -
  define messages where "messages =
         [LanguageModelChatSystemMessage (breakdownSystemPrompt (prompts env)),
          LanguageModelChatUserMessage (breakdownUserPrompt (prompts env) (prompt request))]"
  define answer where
    "answer = getCopilotResponseAsString env ''copilot-gpt-3.5-turbo'' messages"
  have res: "userInputBreakdownTaskAsync env request =
          (null_on_failure
             (JSON_parse env (trim (case match_fenced (fence @ ''json'') answer of
                                      None \<Rightarrow> answer | Some group1 \<Rightarrow> group1))),
           [CopilotResponse ''copilot-gpt-3.5-turbo'' messages answer,
            JsonParse (trim (case match_fenced (fence @ ''json'') answer of
                               None \<Rightarrow> answer | Some group1 \<Rightarrow> group1))])"
    unfolding answer_def messages_def
    by (simp add: userInputBreakdownTaskAsync_eq Let_def)
  have p1: "\<forall>body. first_fenced_block ''json'' answer body \<longrightarrow>
         userInputBreakdownTaskAsync env request =
           (null_on_failure (JSON_parse env (trim body)),
            [CopilotResponse ''copilot-gpt-3.5-turbo'' messages answer, JsonParse (trim body)])"
    unfolding res by (auto simp add: match_fenced_Some_iff [symmetric])
  have p2: "\<not> contains_fenced_block ''json'' answer \<longrightarrow>
         userInputBreakdownTaskAsync env request =
           (null_on_failure (JSON_parse env (trim answer)),
            [CopilotResponse ''copilot-gpt-3.5-turbo'' messages answer,
             JsonParse (trim answer)])"
    unfolding res by (auto simp add: match_fenced_None_iff [symmetric])
  have p3: "\<not> contains_fenced_block ''json'' answer \<or> JSON_parse env (trim answer) = None \<longrightarrow>
         fst (userInputBreakdownTaskAsync env request)
           = null_on_failure (parse_direct_first (JSON_parse env) answer)"
    unfolding res
    by (auto simp add: match_fenced_None_iff [symmetric] parse_direct_first_def
                       json_opening [symmetric]
             split: option.splits)
  from p1 p2 p3 show ?thesis
    unfolding Let_def messages_def [symmetric] answer_def [symmetric] by blast
qed

text \<open>
  C3 (amended). \<^verbatim>\<open>userInputBreakdownTaskAsync\<close> returns \<^verbatim>\<open>null\<close> exactly when the text
  that it selects (the contents of the first fenced \<^verbatim>\<open>json\<close> block when the pattern
  matches, the whole answer otherwise; trimmed) fails to parse, parses to \<^verbatim>\<open>null\<close>, or
  parses to a value whose member \<^verbatim>\<open>complexity\<close> cannot be converted to a string; every
  other parsed value is returned as it is. On a result that is \<^verbatim>\<open>null\<close> (or falsy),
  \<^verbatim>\<open>invoke\<close> adds one to the counter of failed breakdowns, starting from 0 when it is
  absent, and returns \<^verbatim>\<open>Failure\<close>; all it has done by then is to report one progress
  message and to run the breakdown once, with its one request to the remote model and
  its one call of \<^verbatim>\<open>JSON.parse\<close>: nothing is tried again and \<^verbatim>\<open>generateCode\<close> is not
  called.
\<close>

theorem breakdown_null_iff_parse_failure:
  "let messages =
         [LanguageModelChatSystemMessage (breakdownSystemPrompt (prompts env)),
          LanguageModelChatUserMessage (breakdownUserPrompt (prompts env) (prompt request))];
       answer = getCopilotResponseAsString env ''copilot-gpt-3.5-turbo'' messages;
       selected = trim (case match_fenced (fence @ ''json'') answer of
                          None \<Rightarrow> answer | Some group1 \<Rightarrow> group1);
       parsed = JSON_parse env selected;
       failed = MeasurementSystemCodegenTaskBreakdownAttemptFailedCount (telemetryConsts env)
   in snd (userInputBreakdownTaskAsync env request) =
        [CopilotResponse ''copilot-gpt-3.5-turbo'' messages answer, JsonParse selected]
    \<and> (fst (userInputBreakdownTaskAsync env request) = None \<longleftrightarrow>
         parsed = None \<or> parsed = Some JNull
         \<or> (\<exists>v. parsed = Some v \<and> throws (get_prop v ''complexity'')))
    \<and> (\<forall>v. parsed = Some v \<and> v \<noteq> JNull \<and> \<not> throws (get_prop v ''complexity'') \<longrightarrow>
          fst (userInputBreakdownTaskAsync env request) = Some v)
    \<and> (breakdown_guard spec = Inr True
          \<and> falsy (fst (userInputBreakdownTaskAsync env request)) \<longrightarrow>
        invoke env t0 t1 request spec =
          (Inr (Failure,
                js_of_spec
                  (update_measurements
                     (\<lambda>m. m(failed \<mapsto> (case m failed of None \<Rightarrow> 0 | Some x \<Rightarrow> x) + 1))
                     spec)),
           [Progress ''Identify code-generation scenarios...'',
            Call_userInputBreakdownTaskAsync,
            CopilotResponse ''copilot-gpt-3.5-turbo'' messages answer,
            JsonParse selected]))"
proof -
  define messages where "messages =
         [LanguageModelChatSystemMessage (breakdownSystemPrompt (prompts env)),
          LanguageModelChatUserMessage (breakdownUserPrompt (prompts env) (prompt request))]"
  define answer where
    "answer = getCopilotResponseAsString env ''copilot-gpt-3.5-turbo'' messages"
  define selected where
    "selected = trim (case match_fenced (fence @ ''json'') answer of
                        None \<Rightarrow> answer | Some group1 \<Rightarrow> group1)"
  define failed where
    "failed = MeasurementSystemCodegenTaskBreakdownAttemptFailedCount (telemetryConsts env)"
  have res: "userInputBreakdownTaskAsync env request =
          (null_on_failure (JSON_parse env selected),
           [CopilotResponse ''copilot-gpt-3.5-turbo'' messages answer, JsonParse selected])"
    unfolding selected_def answer_def messages_def
    by (simp add: userInputBreakdownTaskAsync_eq Let_def)
  have p1: "snd (userInputBreakdownTaskAsync env request) =
        [CopilotResponse ''copilot-gpt-3.5-turbo'' messages answer, JsonParse selected]"
    by (simp add: res)
  have p2: "fst (userInputBreakdownTaskAsync env request) = None \<longleftrightarrow>
         JSON_parse env selected = None \<or> JSON_parse env selected = Some JNull
         \<or> (\<exists>v. JSON_parse env selected = Some v \<and> throws (get_prop v ''complexity''))"
    by (simp add: res null_on_failure_None_iff)
  have p3: "\<forall>v. JSON_parse env selected = Some v \<and> v \<noteq> JNull
                 \<and> \<not> throws (get_prop v ''complexity'') \<longrightarrow>
          fst (userInputBreakdownTaskAsync env request) = Some v"
    by (simp add: res null_on_failure_Some)
  have p4: "breakdown_guard spec = Inr True
          \<and> falsy (fst (userInputBreakdownTaskAsync env request)) \<longrightarrow>
        invoke env t0 t1 request spec =
          (Inr (Failure,
                js_of_spec
                  (update_measurements
                     (\<lambda>m. m(failed \<mapsto> (case m failed of None \<Rightarrow> 0 | Some x \<Rightarrow> x) + 1))
                     spec)),
           [Progress ''Identify code-generation scenarios...'',
            Call_userInputBreakdownTaskAsync,
            CopilotResponse ''copilot-gpt-3.5-turbo'' messages answer,
            JsonParse selected])"
  proof
    assume h: "breakdown_guard spec = Inr True
                 \<and> falsy (fst (userInputBreakdownTaskAsync env request))"
    then have g: "breakdown_guard spec = Inr True"
      and f: "falsy (fst (userInputBreakdownTaskAsync env request))"
      by simp_all
    show "invoke env t0 t1 request spec =
          (Inr (Failure,
                js_of_spec
                  (update_measurements
                     (\<lambda>m. m(failed \<mapsto> (case m failed of None \<Rightarrow> 0 | Some x \<Rightarrow> x) + 1))
                     spec)),
           [Progress ''Identify code-generation scenarios...'',
            Call_userInputBreakdownTaskAsync,
            CopilotResponse ''copilot-gpt-3.5-turbo'' messages answer,
            JsonParse selected])"
      unfolding invoke_failure [OF g f] p1
      by (simp add: count_measurement_eq failed_def)
  qed
  from p1 p2 p3 p4 show ?thesis
    unfolding Let_def messages_def [symmetric] answer_def [symmetric]
              selected_def [symmetric] failed_def [symmetric]
    by blast
qed

text \<open>
  C5 (amended). When the breakdown stage runs and its result is a truthy value whose
  \<^verbatim>\<open>shouldContinue\<close> is falsy (\<^verbatim>\<open>false\<close>, or absent, \<^verbatim>\<open>null\<close>, 0 or the empty string),
  \<^verbatim>\<open>invoke\<close> returns \<^verbatim>\<open>Rejected\<close> with the result's \<^verbatim>\<open>data\<close> in
  \<^verbatim>\<open>spec.sections\<close>, and all it has done is the breakdown stage: it has not called
  \<^verbatim>\<open>generateCode\<close>, sent no second request to the remote model and not queried the
  sample provider. Whenever \<^verbatim>\<open>invoke\<close> calls \<^verbatim>\<open>generateCode\<close>, either the breakdown
  stage was skipped or its result was truthy with a truthy \<^verbatim>\<open>shouldContinue\<close>, which
  need not be \<^verbatim>\<open>true\<close>.
\<close>

theorem rejected_breakdown_stops_invoke:
  "let messages =
         [LanguageModelChatSystemMessage (breakdownSystemPrompt (prompts env)),
          LanguageModelChatUserMessage (breakdownUserPrompt (prompts env) (prompt request))];
       answer = getCopilotResponseAsString env ''copilot-gpt-3.5-turbo'' messages;
       selected = trim (case match_fenced (fence @ ''json'') answer of
                          None \<Rightarrow> answer | Some group1 \<Rightarrow> group1)
   in (\<forall>v. breakdown_guard spec = Inr True
            \<and> JSON_parse env selected = Some v
            \<and> \<not> throws (get_prop v ''complexity'')
            \<and> \<not> falsy (Some v)
            \<and> falsy (get_prop v ''shouldContinue'') \<longrightarrow>
          fst (userInputBreakdownTaskAsync env request) = Some v
          \<and> invoke env t0 t1 request spec =
              (Inr (Rejected, (js_of_spec spec)\<lparr> js_sections := get_prop v ''data'' \<rparr>),
               [Progress ''Identify code-generation scenarios...'',
                Call_userInputBreakdownTaskAsync,
                CopilotResponse ''copilot-gpt-3.5-turbo'' messages answer,
                JsonParse selected]))
    \<and> (Call_generateCode \<in> set (snd (invoke env t0 t1 request spec)) \<longrightarrow>
          breakdown_guard spec = Inr False
          \<and> Call_userInputBreakdownTaskAsync \<notin> set (snd (invoke env t0 t1 request spec))
        \<or> (\<exists>v. breakdown_guard spec = Inr True
                \<and> JSON_parse env selected = Some v
                \<and> fst (userInputBreakdownTaskAsync env request) = Some v
                \<and> \<not> falsy (Some v)
                \<and> \<not> falsy (get_prop v ''shouldContinue'')))"
proof -
  define messages where "messages =
         [LanguageModelChatSystemMessage (breakdownSystemPrompt (prompts env)),
          LanguageModelChatUserMessage (breakdownUserPrompt (prompts env) (prompt request))]"
  define answer where
    "answer = getCopilotResponseAsString env ''copilot-gpt-3.5-turbo'' messages"
  define selected where
    "selected = trim (case match_fenced (fence @ ''json'') answer of
                        None \<Rightarrow> answer | Some group1 \<Rightarrow> group1)"
  have res: "userInputBreakdownTaskAsync env request =
          (null_on_failure (JSON_parse env selected),
           [CopilotResponse ''copilot-gpt-3.5-turbo'' messages answer, JsonParse selected])"
    unfolding selected_def answer_def messages_def
    by (simp add: userInputBreakdownTaskAsync_eq Let_def)
  have p1: "\<forall>v. breakdown_guard spec = Inr True
            \<and> JSON_parse env selected = Some v
            \<and> \<not> throws (get_prop v ''complexity'')
            \<and> \<not> falsy (Some v)
            \<and> falsy (get_prop v ''shouldContinue'') \<longrightarrow>
          fst (userInputBreakdownTaskAsync env request) = Some v
          \<and> invoke env t0 t1 request spec =
              (Inr (Rejected, (js_of_spec spec)\<lparr> js_sections := get_prop v ''data'' \<rparr>),
               [Progress ''Identify code-generation scenarios...'',
                Call_userInputBreakdownTaskAsync,
                CopilotResponse ''copilot-gpt-3.5-turbo'' messages answer,
                JsonParse selected])"
  proof (intro allI impI)
    fix v
    assume a: "breakdown_guard spec = Inr True
            \<and> JSON_parse env selected = Some v
            \<and> \<not> throws (get_prop v ''complexity'')
            \<and> \<not> falsy (Some v)
            \<and> falsy (get_prop v ''shouldContinue'')"
    then have g: "breakdown_guard spec = Inr True"
      and p: "JSON_parse env selected = Some v"
      and nt: "\<not> throws (get_prop v ''complexity'')"
      and nf: "\<not> falsy (Some v)"
      and sc: "falsy (get_prop v ''shouldContinue'')"
      by simp_all
    from nf have "v \<noteq> JNull" by auto
    with p nt have r: "fst (userInputBreakdownTaskAsync env request) = Some v"
      by (simp add: res null_on_failure_Some)
    have "invoke env t0 t1 request spec =
              (Inr (Rejected, (js_of_spec spec)\<lparr> js_sections := get_prop v ''data'' \<rparr>),
               [Progress ''Identify code-generation scenarios...'',
                Call_userInputBreakdownTaskAsync,
                CopilotResponse ''copilot-gpt-3.5-turbo'' messages answer,
                JsonParse selected])"
      unfolding invoke_rejected [OF g r nf sc] by (simp add: res)
    with r show "fst (userInputBreakdownTaskAsync env request) = Some v
          \<and> invoke env t0 t1 request spec =
              (Inr (Rejected, (js_of_spec spec)\<lparr> js_sections := get_prop v ''data'' \<rparr>),
               [Progress ''Identify code-generation scenarios...'',
                Call_userInputBreakdownTaskAsync,
                CopilotResponse ''copilot-gpt-3.5-turbo'' messages answer,
                JsonParse selected])"
      by simp
  qed
  have p2: "Call_generateCode \<in> set (snd (invoke env t0 t1 request spec)) \<longrightarrow>
          breakdown_guard spec = Inr False
          \<and> Call_userInputBreakdownTaskAsync \<notin> set (snd (invoke env t0 t1 request spec))
        \<or> (\<exists>v. breakdown_guard spec = Inr True
                \<and> JSON_parse env selected = Some v
                \<and> fst (userInputBreakdownTaskAsync env request) = Some v
                \<and> \<not> falsy (Some v)
                \<and> \<not> falsy (get_prop v ''shouldContinue''))"
  proof
    assume gen: "Call_generateCode \<in> set (snd (invoke env t0 t1 request spec))"
    show "breakdown_guard spec = Inr False
          \<and> Call_userInputBreakdownTaskAsync \<notin> set (snd (invoke env t0 t1 request spec))
        \<or> (\<exists>v. breakdown_guard spec = Inr True
                \<and> JSON_parse env selected = Some v
                \<and> fst (userInputBreakdownTaskAsync env request) = Some v
                \<and> \<not> falsy (Some v)
                \<and> \<not> falsy (get_prop v ''shouldContinue''))"
    proof (cases "breakdown_guard spec")
      case (Inl e)
      with gen show ?thesis by (simp add: invoke_guard_throws)
    next
      case (Inr ran)
      show ?thesis
      proof (cases ran)
        case False
        with Inr have s: "breakdown_guard spec = Inr False" by simp
        then have "invoke env t0 t1 request spec
                     = invoke_generate env t0 t1 request (js_of_spec spec) []"
          by (rule invoke_skipped)
        then have "count_list (snd (invoke env t0 t1 request spec))
                     Call_userInputBreakdownTaskAsync = 0"
          by (simp add: count_generate_trace)
        with s show ?thesis by (simp add: count_list_0_iff)
      next
        case True
        with Inr have g: "breakdown_guard spec = Inr True" by simp
        show ?thesis
        proof (cases "falsy (fst (userInputBreakdownTaskAsync env request))")
          case True
          from invoke_failure [OF g True, of t0 t1] gen show ?thesis
            by (simp add: res)
        next
          case False
          then obtain v where v: "fst (userInputBreakdownTaskAsync env request) = Some v"
            by (cases "fst (userInputBreakdownTaskAsync env request)") auto
          with False have nf: "\<not> falsy (Some v)" by simp
          from v have pv: "JSON_parse env selected = Some v"
            by (simp add: res null_on_failure_SomeD)
          show ?thesis
          proof (cases "falsy (get_prop v ''shouldContinue'')")
            case True
            from invoke_rejected [OF g v nf True, of t0 t1] gen show ?thesis
              by (simp add: res)
          next
            case False
            with g v nf pv show ?thesis by blast
          qed
        qed
      qed
    qed
  qed
  from p1 p2 show ?thesis
    unfolding Let_def messages_def [symmetric] answer_def [symmetric]
              selected_def [symmetric]
    by blast
qed

subsection \<open>\<^verbatim>\<open>generateCode\<close> on the values that \<^verbatim>\<open>invoke\<close> passes\<close>

text \<open>
  On a host that is a string, a flag that is a boolean, a list of strings and a spec of
  the declared types, \<open>generateCode_js\<close> does what \<open>generateCode\<close> does: it throws
  nothing, and returns the same code, the same spec and the same trace.
\<close>

lemma js_of_spec_set_property:
  "js_of_spec (set_property key v spec) = js_set_property key (Some (JString v)) (js_of_spec spec)"
  by (simp add: js_of_spec_def set_property_def js_set_property_def fun_eq_iff)

lemma js_of_spec_update_measurements:
  "js_of_spec (update_measurements f spec) = js_update_measurements f (js_of_spec spec)"
  by (simp add: js_of_spec_def update_measurements_def js_update_measurements_def)

lemma js_of_spec_count_measurement:
  "js_of_spec (count_measurement key d spec) = js_count_measurement key d (js_of_spec spec)"
  by (simp add: count_measurement_def js_count_measurement_def js_of_spec_update_measurements)

lemma js_complexity_js_of_spec:
  "js_complexity (js_appendix (js_of_spec spec)) = Some (JNumber (complexity (appendix spec)))"
  by (simp add: js_of_spec_def)

lemma js_ge_number: "js_ge env (Some (JNumber x)) c = Inr (c \<le> x)"
  by (simp add: js_ge_def)

lemma typed_tasks:
  "\<not> (\<exists>task \<in> set (map JString tasks). to_string_throws task)"
  by auto

lemma typed_host:
  "samples_for env (Some (JString h)) p k = getTopKMostRelevantScenarioSampleCodes env h p k"
  "sample_query (Some (JString h)) p k = SampleQuery h p k"
  "guidance_for env (Some (JString h)) = getCodeGenerateGuidance env h"
  by (simp_all add: samples_for_def sample_query_def guidance_for_def)

lemma generateCode_js_typed:
  "generateCode_js env request (Some (JString h)) (Some (JBool cf))
       (Some (JArray (map JString tasks))) (js_of_spec spec)
     = (case generateCode env request h cf tasks spec of
          (code, spec', trace) \<Rightarrow> (Inr (code, js_of_spec spec'), trace))"
  using typed_tasks [of tasks]
  by (cases "h = ''Excel''"; cases cf;
      cases "getTopKMostRelevantScenarioSampleCodes env h (prompt request) 2 = []")
     (simp_all add: generateCode_js_def generateCode_def Let_def split_def o_def
        typed_host js_ge_number js_complexity_js_of_spec
        js_of_spec_set_property [symmetric] js_of_spec_count_measurement [symmetric]
        split: option.split split del: if_split)

subsection \<open>Concrete runs of the skill\<close>

lemma test_breakdown_messages:
  "breakdownSystemPrompt test_prompts = ''The output should be just a JSON object.''"
  "breakdownUserPrompt test_prompts (prompt test_request) = ''Assume this is a ask: sum column A''"
  by (simp_all add: test_prompts_def test_request_def)

lemma test_run:
  "userInputBreakdownTaskAsync (test_cg_env a c s) test_request =
     (null_on_failure
        (json_parse (trim (case match_fenced (fence @ ''json'') a of
                             None \<Rightarrow> a | Some group1 \<Rightarrow> group1))),
      [CopilotResponse ''copilot-gpt-3.5-turbo''
         [LanguageModelChatSystemMessage ''The output should be just a JSON object.'',
            LanguageModelChatUserMessage ''Assume this is a ask: sum column A''] a,
       JsonParse (trim (case match_fenced (fence @ ''json'') a of
                          None \<Rightarrow> a | Some group1 \<Rightarrow> group1))])"
  unfolding userInputBreakdownTaskAsync_eq Let_def test_env_fields test_breakdown_messages
  by (rule refl)

lemma test_guard: "breakdown_guard (test_spec c) = Inr True"
  by (simp add: breakdown_guard_def test_spec_def)

lemma test_rejection_block:
  \<open>match_fenced (fence @ ''json'') test_rejection = Some '' {"host":"Excel","shouldContinue":false,"data":["not about Office"],"complexity":1,"customFunctions":false} ''\<close>
  by code_simp

lemma test_rejection_trim:
  \<open>trim '' {"host":"Excel","shouldContinue":false,"data":["not about Office"],"complexity":1,"customFunctions":false} '' = ''{"host":"Excel","shouldContinue":false,"data":["not about Office"],"complexity":1,"customFunctions":false}''\<close>
  by code_simp

lemma test_rejection_parse:
  \<open>json_parse ''{"host":"Excel","shouldContinue":false,"data":["not about Office"],"complexity":1,"customFunctions":false}'' = Some test_rejection_json\<close>
  by code_simp

lemma test_rejection_selected:
  \<open>trim (case match_fenced (fence @ ''json'') test_rejection of
            None \<Rightarrow> test_rejection | Some group1 \<Rightarrow> group1) = ''{"host":"Excel","shouldContinue":false,"data":["not about Office"],"complexity":1,"customFunctions":false}''\<close>
  by (simp only: test_rejection_block option.case test_rejection_trim)

lemma test_breakdown_no_block: "match_fenced (fence @ ''json'') test_breakdown = None"
  by code_simp

lemma test_breakdown_trim: "trim test_breakdown = test_breakdown"
  by code_simp

lemma test_breakdown_parse: "json_parse test_breakdown = Some test_breakdown_json"
  by code_simp

lemma test_breakdown_selected:
  "trim (case match_fenced (fence @ ''json'') test_breakdown of
           None \<Rightarrow> test_breakdown | Some group1 \<Rightarrow> group1) = test_breakdown"
  by (simp only: test_breakdown_no_block option.case test_breakdown_trim)

lemma test_string_false_selected:
  "trim (case match_fenced (fence @ ''json'') test_string_false of
           None \<Rightarrow> test_string_false | Some group1 \<Rightarrow> group1) = test_string_false"
  by code_simp

lemma test_string_false_parse: "json_parse test_string_false = Some test_string_false_json"
  by code_simp

lemma test_values:
  "null_on_failure (Some test_rejection_json) = Some test_rejection_json"
  "null_on_failure (Some test_breakdown_json) = Some test_breakdown_json"
  "null_on_failure (Some test_string_false_json) = Some test_string_false_json"
  "get_prop test_rejection_json ''shouldContinue'' = Some (JBool False)"
  "get_prop test_rejection_json ''data'' = Some (JArray [JString ''not about Office''])"
  "get_prop test_rejection_json ''complexity'' = Some (JNumber 1)"
  "get_prop test_breakdown_json ''shouldContinue'' = Some (JBool True)"
  "get_prop test_breakdown_json ''complexity'' = Some (JNumber 60)"
  "get_prop test_string_false_json ''shouldContinue'' = Some (JString ''false'')"
  "get_prop test_string_false_json ''complexity'' = Some (JNumber 10)"
  "\<not> falsy (Some test_rejection_json)"
  "\<not> falsy (Some test_breakdown_json)"
  "\<not> falsy (Some test_string_false_json)"
  by (simp_all add: null_on_failure_def test_rejection_json_def test_breakdown_json_def
                    test_string_false_json_def)

lemma test_rejection_result:
  "fst (userInputBreakdownTaskAsync (test_cg_env test_rejection c s) test_request)
     = Some test_rejection_json"
  by (simp only: test_run fst_conv test_rejection_selected test_rejection_parse test_values)

lemma test_breakdown_result:
  "fst (userInputBreakdownTaskAsync (test_cg_env test_breakdown c s) test_request)
     = Some test_breakdown_json"
  by (simp only: test_run fst_conv test_breakdown_selected test_breakdown_parse test_values)

lemma test_string_false_result:
  "fst (userInputBreakdownTaskAsync (test_cg_env test_string_false c s) test_request)
     = Some test_string_false_json"
  by (simp only: test_run fst_conv test_string_false_selected test_string_false_parse
                 test_values)

theorem breakdown_parses_fenced_block_first_witness:
  \<open>first_fenced_block ''json'' test_rejection '' {"host":"Excel","shouldContinue":false,"data":["not about Office"],"complexity":1,"customFunctions":false} ''
   \<and> userInputBreakdownTaskAsync (test_cg_env test_rejection [] []) test_request
       = (Some test_rejection_json,
          [CopilotResponse ''copilot-gpt-3.5-turbo''
             [LanguageModelChatSystemMessage ''The output should be just a JSON object.'',
            LanguageModelChatUserMessage ''Assume this is a ask: sum column A'']
             test_rejection,
           JsonParse ''{"host":"Excel","shouldContinue":false,"data":["not about Office"],"complexity":1,"customFunctions":false}''])
   \<and> \<not> contains_fenced_block ''json'' test_breakdown
   \<and> userInputBreakdownTaskAsync (test_cg_env test_breakdown [] []) test_request
       = (Some test_breakdown_json,
          [CopilotResponse ''copilot-gpt-3.5-turbo''
             [LanguageModelChatSystemMessage ''The output should be just a JSON object.'',
            LanguageModelChatUserMessage ''Assume this is a ask: sum column A'']
             test_breakdown,
           JsonParse test_breakdown])
   \<and> null_on_failure (parse_direct_first json_parse test_breakdown) = Some test_breakdown_json\<close>
proof -
  let ?body = \<open>'' {"host":"Excel","shouldContinue":false,"data":["not about Office"],"complexity":1,"customFunctions":false} ''\<close>
  have block: "first_fenced_block ''json'' test_rejection ?body"
    unfolding match_fenced_Some_iff [symmetric] by (rule test_rejection_block)
  have noblock: "\<not> contains_fenced_block ''json'' test_breakdown"
    unfolding match_fenced_None_iff [symmetric] by (rule test_breakdown_no_block)
  note t1 = breakdown_parses_fenced_block_first
              [of "test_cg_env test_rejection [] []" test_request,
               unfolded Let_def test_env_fields test_breakdown_messages]
  note t2 = breakdown_parses_fenced_block_first
              [of "test_cg_env test_breakdown [] []" test_request,
               unfolded Let_def test_env_fields test_breakdown_messages]
  from t1 block have
    "userInputBreakdownTaskAsync (test_cg_env test_rejection [] []) test_request
       = (null_on_failure (json_parse (trim ?body)),
          [CopilotResponse ''copilot-gpt-3.5-turbo''
             [LanguageModelChatSystemMessage ''The output should be just a JSON object.'',
            LanguageModelChatUserMessage ''Assume this is a ask: sum column A'']
             test_rejection,
           JsonParse (trim ?body)])"
    by blast
  then have r1:
    \<open>userInputBreakdownTaskAsync (test_cg_env test_rejection [] []) test_request
       = (Some test_rejection_json,
          [CopilotResponse ''copilot-gpt-3.5-turbo''
             [LanguageModelChatSystemMessage ''The output should be just a JSON object.'',
            LanguageModelChatUserMessage ''Assume this is a ask: sum column A'']
             test_rejection,
           JsonParse ''{"host":"Excel","shouldContinue":false,"data":["not about Office"],"complexity":1,"customFunctions":false}''])\<close>
    by (simp only: test_rejection_trim test_rejection_parse test_values)
  from t2 noblock have
    "userInputBreakdownTaskAsync (test_cg_env test_breakdown [] []) test_request
       = (null_on_failure (json_parse (trim test_breakdown)),
          [CopilotResponse ''copilot-gpt-3.5-turbo''
             [LanguageModelChatSystemMessage ''The output should be just a JSON object.'',
            LanguageModelChatUserMessage ''Assume this is a ask: sum column A'']
             test_breakdown,
           JsonParse (trim test_breakdown)])"
    by blast
  then have r2:
    "userInputBreakdownTaskAsync (test_cg_env test_breakdown [] []) test_request
       = (Some test_breakdown_json,
          [CopilotResponse ''copilot-gpt-3.5-turbo''
             [LanguageModelChatSystemMessage ''The output should be just a JSON object.'',
            LanguageModelChatUserMessage ''Assume this is a ask: sum column A'']
             test_breakdown,
           JsonParse test_breakdown])"
    by (simp only: test_breakdown_trim test_breakdown_parse test_values)
  from t2 noblock have
    "fst (userInputBreakdownTaskAsync (test_cg_env test_breakdown [] []) test_request)
       = null_on_failure (parse_direct_first json_parse test_breakdown)"
    by blast
  with r2 have r3:
    "null_on_failure (parse_direct_first json_parse test_breakdown) = Some test_breakdown_json"
    by simp
  from block r1 noblock r2 r3 show ?thesis by blast
qed

lemma parse_fenced_in_json:
  \<open>json_parse (trim fenced_in_json)
     = Some (JObject [(''data'', JArray [JString ''```json x```''])])\<close>
  by code_simp

lemma fenced_in_json_selected:
  "trim (case match_fenced (fence @ ''json'') fenced_in_json of
           None \<Rightarrow> fenced_in_json | Some group1 \<Rightarrow> group1) = ''x''"
  by code_simp

lemma parse_x: "json_parse ''x'' = None"
  by code_simp

text \<open>
  The claim C2 as it is written, "first attempting a direct JSON parse of the whole
  response, and only when that fails falling back to the fenced block", fails on an
  answer that is valid JSON and holds a fenced block inside a string: its direct parse
  succeeds, yet \<^verbatim>\<open>userInputBreakdownTaskAsync\<close> parses only the contents of the block,
  fails and returns \<^verbatim>\<open>null\<close>.
\<close>

theorem breakdown_direct_parse_counterexample:
  \<open>json_parse (trim fenced_in_json) = Some (JObject [(''data'', JArray [JString ''```json x```''])])
   \<and> null_on_failure (parse_direct_first json_parse fenced_in_json)
       = Some (JObject [(''data'', JArray [JString ''```json x```''])])
   \<and> userInputBreakdownTaskAsync (test_cg_env fenced_in_json [] []) test_request
       = (None,
          [CopilotResponse ''copilot-gpt-3.5-turbo''
             [LanguageModelChatSystemMessage ''The output should be just a JSON object.'',
            LanguageModelChatUserMessage ''Assume this is a ask: sum column A'']
             fenced_in_json,
           JsonParse ''x''])\<close>
proof -
  have 1: \<open>null_on_failure (parse_direct_first json_parse fenced_in_json)
       = Some (JObject [(''data'', JArray [JString ''```json x```''])])\<close>
    by (simp add: parse_direct_first_def parse_fenced_in_json null_on_failure_def)
  have 2: "null_on_failure None = None"
    by (simp add: null_on_failure_def)
  show ?thesis
    by (simp only: test_run fenced_in_json_selected parse_x parse_fenced_in_json 1 2 simp_thms)
qed

text \<open>
  The claim C3 as it is written fails in four ways. An answer that is valid JSON and
  holds a fenced block inside a string parses as a whole, yet the result is \<^verbatim>\<open>null\<close>.
  The answer \<^verbatim>\<open>null\<close> is valid JSON, yet the result is \<^verbatim>\<open>null\<close>. The answer
  \<^verbatim>\<open>{"complexity":{"toString":null}}\<close> is valid JSON, yet the result is \<^verbatim>\<open>null\<close>,
  since the line for the console cannot convert the complexity to a string. The answer
  \<^verbatim>\<open>{}\<close> is valid JSON and the result is not \<^verbatim>\<open>null\<close>, but it is the empty object,
  not a populated result of the declared type.
\<close>

theorem breakdown_null_counterexample:
  \<open>json_parse (trim fenced_in_json) = Some (JObject [(''data'', JArray [JString ''```json x```''])])
   \<and> fst (userInputBreakdownTaskAsync (test_cg_env fenced_in_json [] []) test_request) = None
   \<and> json_parse (trim ''null'') = Some JNull
   \<and> fst (userInputBreakdownTaskAsync (test_cg_env ''null'' [] []) test_request) = None
   \<and> json_parse (trim test_unprintable)
       = Some (JObject [(''complexity'', JObject [(''toString'', JNull)])])
   \<and> fst (userInputBreakdownTaskAsync (test_cg_env test_unprintable [] []) test_request) = None
   \<and> json_parse (trim ''{}'') = Some (JObject [])
   \<and> fst (userInputBreakdownTaskAsync (test_cg_env ''{}'' [] []) test_request) = Some (JObject [])
   \<and> as_BreakdownResult (JObject []) = None\<close>
proof -
  have 2: "null_on_failure
          (json_parse (trim (case match_fenced (fence @ ''json'') fenced_in_json of
                               None \<Rightarrow> fenced_in_json | Some group1 \<Rightarrow> group1))) = None"
    by code_simp
  have 3: "json_parse (trim ''null'') = Some JNull"
    by code_simp
  have 4: "null_on_failure
          (json_parse (trim (case match_fenced (fence @ ''json'') ''null'' of
                               None \<Rightarrow> ''null'' | Some group1 \<Rightarrow> group1))) = None"
    by code_simp
  have 5: "json_parse (trim ''{}'') = Some (JObject [])"
    by code_simp
  have 6: "null_on_failure
          (json_parse (trim (case match_fenced (fence @ ''json'') ''{}'' of
                               None \<Rightarrow> ''{}'' | Some group1 \<Rightarrow> group1))) = Some (JObject [])"
    by code_simp
  have 7: "as_BreakdownResult (JObject []) = None"
    by (simp add: as_BreakdownResult_def)
  have 8: "json_parse (trim test_unprintable)
       = Some (JObject [(''complexity'', JObject [(''toString'', JNull)])])"
    by code_simp
  have 9: "null_on_failure
          (json_parse (trim (case match_fenced (fence @ ''json'') test_unprintable of
                               None \<Rightarrow> test_unprintable | Some group1 \<Rightarrow> group1))) = None"
    by code_simp
  show ?thesis
    by (simp only: test_run fst_conv parse_fenced_in_json 2 3 4 5 6 7 8 9 simp_thms)
qed

theorem breakdown_null_iff_parse_failure_witness:
  "json_parse ''x'' = None
   \<and> userInputBreakdownTaskAsync (test_cg_env ''x'' [] []) test_request
       = (None,
          [CopilotResponse ''copilot-gpt-3.5-turbo''
             [LanguageModelChatSystemMessage ''The output should be just a JSON object.'',
            LanguageModelChatUserMessage ''Assume this is a ask: sum column A''] ''x'',
           JsonParse ''x''])
   \<and> breakdown_guard (test_spec 0) = Inr True
   \<and> invoke (test_cg_env ''x'' [] []) 0 1000 test_request (test_spec 0) =
        (Inr (Failure,
              js_of_spec
                (update_measurements
                   (\<lambda>m. m(''breakdown-failed-count'' \<mapsto>
                           (case m ''breakdown-failed-count'' of None \<Rightarrow> 0 | Some x \<Rightarrow> x) + 1))
                   (test_spec 0))),
         [Progress ''Identify code-generation scenarios...'',
          Call_userInputBreakdownTaskAsync,
          CopilotResponse ''copilot-gpt-3.5-turbo''
             [LanguageModelChatSystemMessage ''The output should be just a JSON object.'',
            LanguageModelChatUserMessage ''Assume this is a ask: sum column A''] ''x'',
          JsonParse ''x''])
   \<and> js_measurements (js_telemetryData (js_appendix
         (js_of_spec
            (update_measurements
               (\<lambda>m. m(''breakdown-failed-count'' \<mapsto>
                       (case m ''breakdown-failed-count'' of None \<Rightarrow> 0 | Some x \<Rightarrow> x) + 1))
               (test_spec 0))))) ''breakdown-failed-count'' = Some 1
   \<and> json_parse test_breakdown = Some test_breakdown_json
   \<and> fst (userInputBreakdownTaskAsync (test_cg_env test_breakdown [] []) test_request)
       = Some test_breakdown_json"
proof -
  let ?env = "test_cg_env ''x'' [] []"
  have key: "MeasurementSystemCodegenTaskBreakdownAttemptFailedCount test_keys
               = ''breakdown-failed-count''"
    by (simp add: test_keys_def)
  have sel: "trim (case match_fenced (fence @ ''json'') ''x'' of
                     None \<Rightarrow> ''x'' | Some group1 \<Rightarrow> group1) = ''x''"
    by code_simp
  note t = breakdown_null_iff_parse_failure
             [of ?env test_request "test_spec 0" 0 1000,
              unfolded Let_def test_env_fields test_breakdown_messages key sel]
  from t have tr: "snd (userInputBreakdownTaskAsync ?env test_request) =
        [CopilotResponse ''copilot-gpt-3.5-turbo''
           [LanguageModelChatSystemMessage ''The output should be just a JSON object.'',
            LanguageModelChatUserMessage ''Assume this is a ask: sum column A''] ''x'',
         JsonParse ''x'']"
    by (rule conjunct1)
  from t parse_x have none: "fst (userInputBreakdownTaskAsync ?env test_request) = None"
    by blast
  from tr none have run: "userInputBreakdownTaskAsync ?env test_request
       = (None,
          [CopilotResponse ''copilot-gpt-3.5-turbo''
             [LanguageModelChatSystemMessage ''The output should be just a JSON object.'',
            LanguageModelChatUserMessage ''Assume this is a ask: sum column A''] ''x'',
           JsonParse ''x''])"
    by (simp add: prod_eq_iff)
  from none have f: "falsy (fst (userInputBreakdownTaskAsync ?env test_request))"
    by simp
  from t test_guard [of 0] f have inv:
    "invoke ?env 0 1000 test_request (test_spec 0) =
        (Inr (Failure,
              js_of_spec
                (update_measurements
                   (\<lambda>m. m(''breakdown-failed-count'' \<mapsto>
                           (case m ''breakdown-failed-count'' of None \<Rightarrow> 0 | Some x \<Rightarrow> x) + 1))
                   (test_spec 0))),
         [Progress ''Identify code-generation scenarios...'',
          Call_userInputBreakdownTaskAsync,
          CopilotResponse ''copilot-gpt-3.5-turbo''
             [LanguageModelChatSystemMessage ''The output should be just a JSON object.'',
            LanguageModelChatUserMessage ''Assume this is a ask: sum column A''] ''x'',
          JsonParse ''x''])"
    by blast
  have m: "js_measurements (js_telemetryData (js_appendix
         (js_of_spec
            (update_measurements
               (\<lambda>m. m(''breakdown-failed-count'' \<mapsto>
                       (case m ''breakdown-failed-count'' of None \<Rightarrow> 0 | Some x \<Rightarrow> x) + 1))
               (test_spec 0))))) ''breakdown-failed-count'' = Some 1"
    by (simp add: js_of_spec_def update_measurements_def test_spec_def)
  note t' = breakdown_null_iff_parse_failure
              [of "test_cg_env test_breakdown [] []" test_request "test_spec 0" 0 1000,
               unfolded Let_def test_env_fields test_breakdown_messages
                        test_breakdown_selected]
  have "test_breakdown_json \<noteq> JNull
        \<and> \<not> throws (get_prop test_breakdown_json ''complexity'')"
    by (simp add: test_breakdown_json_def)
  with t' test_breakdown_parse have some:
    "fst (userInputBreakdownTaskAsync (test_cg_env test_breakdown [] []) test_request)
       = Some test_breakdown_json"
    by blast
  from parse_x run test_guard [of 0] inv m test_breakdown_parse some show ?thesis by blast
qed

lemma js_ge_test:
  "js_ge env (Some (JNumber 60)) 50 = Inr True"
  "js_ge env (Some (JNumber 10)) 50 = Inr False"
  by (simp_all add: js_ge_def)

theorem rejected_breakdown_stops_invoke_witness:
  \<open>breakdown_guard (test_spec 0) = Inr True
   \<and> json_parse ''{"host":"Excel","shouldContinue":false,"data":["not about Office"],"complexity":1,"customFunctions":false}'' = Some test_rejection_json
   \<and> get_prop test_rejection_json ''shouldContinue'' = Some (JBool False)
   \<and> invoke (test_cg_env test_rejection [] []) 0 1000 test_request (test_spec 0)
       = (Inr (Rejected,
               (js_of_spec (test_spec 0))
                 \<lparr> js_sections := Some (JArray [JString ''not about Office'']) \<rparr>),
          [Progress ''Identify code-generation scenarios...'',
           Call_userInputBreakdownTaskAsync,
           CopilotResponse ''copilot-gpt-3.5-turbo''
             [LanguageModelChatSystemMessage ''The output should be just a JSON object.'',
            LanguageModelChatUserMessage ''Assume this is a ask: sum column A'']
             test_rejection,
           JsonParse ''{"host":"Excel","shouldContinue":false,"data":["not about Office"],"complexity":1,"customFunctions":false}''])
   \<and> Call_generateCode
       \<in> set (snd (invoke (test_cg_env test_breakdown test_code_answer []) 0 1000 test_request
                      (test_spec 0)))
   \<and> fst (userInputBreakdownTaskAsync (test_cg_env test_breakdown test_code_answer [])
            test_request) = Some test_breakdown_json
   \<and> get_prop test_breakdown_json ''shouldContinue'' = Some (JBool True)
   \<and> json_parse ''{}'' = Some (JObject [])
   \<and> invoke (test_cg_env ''{}'' [] []) 0 1000 test_request (test_spec 0)
       = (Inr (Rejected, (js_of_spec (test_spec 0))\<lparr> js_sections := None \<rparr>),
          [Progress ''Identify code-generation scenarios...'',
           Call_userInputBreakdownTaskAsync,
           CopilotResponse ''copilot-gpt-3.5-turbo''
             [LanguageModelChatSystemMessage ''The output should be just a JSON object.'',
            LanguageModelChatUserMessage ''Assume this is a ask: sum column A'']
             ''{}'',
           JsonParse ''{}''])\<close>
proof -
  let ?sel = \<open>''{"host":"Excel","shouldContinue":false,"data":["not about Office"],"complexity":1,"customFunctions":false}''\<close>
  note t1 = rejected_breakdown_stops_invoke
              [of "test_cg_env test_rejection [] []" test_request "test_spec 0" 0 1000,
               unfolded Let_def test_env_fields test_breakdown_messages
                        test_rejection_selected]
  have hyp: "breakdown_guard (test_spec 0) = Inr True
            \<and> json_parse ?sel = Some test_rejection_json
            \<and> \<not> throws (get_prop test_rejection_json ''complexity'')
            \<and> \<not> falsy (Some test_rejection_json)
            \<and> falsy (get_prop test_rejection_json ''shouldContinue'')"
    by (simp add: test_guard test_rejection_parse test_values)
  from t1 hyp have
    "invoke (test_cg_env test_rejection [] []) 0 1000 test_request (test_spec 0)
       = (Inr (Rejected,
               (js_of_spec (test_spec 0))
                 \<lparr> js_sections := get_prop test_rejection_json ''data'' \<rparr>),
          [Progress ''Identify code-generation scenarios...'',
           Call_userInputBreakdownTaskAsync,
           CopilotResponse ''copilot-gpt-3.5-turbo''
             [LanguageModelChatSystemMessage ''The output should be just a JSON object.'',
            LanguageModelChatUserMessage ''Assume this is a ask: sum column A'']
             test_rejection,
           JsonParse ?sel])"
    by blast
  then have rej:
    "invoke (test_cg_env test_rejection [] []) 0 1000 test_request (test_spec 0)
       = (Inr (Rejected,
               (js_of_spec (test_spec 0))
                 \<lparr> js_sections := Some (JArray [JString ''not about Office'']) \<rparr>),
          [Progress ''Identify code-generation scenarios...'',
           Call_userInputBreakdownTaskAsync,
           CopilotResponse ''copilot-gpt-3.5-turbo''
             [LanguageModelChatSystemMessage ''The output should be just a JSON object.'',
            LanguageModelChatUserMessage ''Assume this is a ask: sum column A'']
             test_rejection,
           JsonParse ?sel])"
    by (simp only: test_values)
  have gen: "Call_generateCode
       \<in> set (snd (invoke (test_cg_env test_breakdown test_code_answer []) 0 1000 test_request
                      (test_spec 0)))"
  proof -
    have nsc: "\<not> falsy (get_prop test_breakdown_json ''shouldContinue'')"
      by (simp add: test_values)
    note inv = invoke_continue [OF test_guard [of 0]
                 test_breakdown_result [of test_code_answer "[]"] test_values(12) nsc,
                 of 0 1000]
    show ?thesis
      unfolding inv
      by (rule generate_in_trace [where high = True]) (simp add: test_values js_ge_test)
  qed
  note t2 = rejected_breakdown_stops_invoke
              [of "test_cg_env test_breakdown test_code_answer []" test_request "test_spec 0"
                  0 1000,
               unfolded Let_def test_env_fields test_breakdown_messages
                        test_breakdown_selected]
  from t2 gen test_guard [of 0] have
    "\<exists>v. json_parse test_breakdown = Some v
         \<and> fst (userInputBreakdownTaskAsync (test_cg_env test_breakdown test_code_answer [])
                  test_request) = Some v
         \<and> \<not> falsy (get_prop v ''shouldContinue'')"
    by auto
  then have cont:
    "fst (userInputBreakdownTaskAsync (test_cg_env test_breakdown test_code_answer [])
            test_request) = Some test_breakdown_json
     \<and> \<not> falsy (get_prop test_breakdown_json ''shouldContinue'')"
    by (auto simp add: test_breakdown_parse)
  have sel: "trim (case match_fenced (fence @ ''json'') ''{}'' of
                     None \<Rightarrow> ''{}'' | Some group1 \<Rightarrow> group1) = ''{}''"
    by code_simp
  have pe: "json_parse ''{}'' = Some (JObject [])"
    by code_simp
  note t3 = rejected_breakdown_stops_invoke
              [of "test_cg_env ''{}'' [] []" test_request "test_spec 0" 0 1000,
               unfolded Let_def test_env_fields test_breakdown_messages sel]
  have hyp3: "breakdown_guard (test_spec 0) = Inr True
            \<and> json_parse ''{}'' = Some (JObject [])
            \<and> \<not> throws (get_prop (JObject []) ''complexity'')
            \<and> \<not> falsy (Some (JObject []))
            \<and> falsy (get_prop (JObject []) ''shouldContinue'')"
    by (simp add: test_guard pe)
  from t3 hyp3 have
    "invoke (test_cg_env ''{}'' [] []) 0 1000 test_request (test_spec 0)
       = (Inr (Rejected,
               (js_of_spec (test_spec 0))\<lparr> js_sections := get_prop (JObject []) ''data'' \<rparr>),
          [Progress ''Identify code-generation scenarios...'',
           Call_userInputBreakdownTaskAsync,
           CopilotResponse ''copilot-gpt-3.5-turbo''
             [LanguageModelChatSystemMessage ''The output should be just a JSON object.'',
            LanguageModelChatUserMessage ''Assume this is a ask: sum column A'']
             ''{}'',
           JsonParse ''{}''])"
    by blast
  then have empty:
    "invoke (test_cg_env ''{}'' [] []) 0 1000 test_request (test_spec 0)
       = (Inr (Rejected, (js_of_spec (test_spec 0))\<lparr> js_sections := None \<rparr>),
          [Progress ''Identify code-generation scenarios...'',
           Call_userInputBreakdownTaskAsync,
           CopilotResponse ''copilot-gpt-3.5-turbo''
             [LanguageModelChatSystemMessage ''The output should be just a JSON object.'',
            LanguageModelChatUserMessage ''Assume this is a ask: sum column A'']
             ''{}'',
           JsonParse ''{}''])"
    by simp
  from hyp rej gen cont pe empty show ?thesis
    by (simp add: test_values)
qed

lemma test_string_false_run:
  "requested_models
     (snd (invoke (test_cg_env test_string_false test_code_answer []) 0 1000 test_request
             (test_spec 0))) = [''copilot-gpt-3.5-turbo'', ''copilot-gpt-3.5-turbo'']"
  "(case fst (invoke (test_cg_env test_string_false test_code_answer []) 0 1000 test_request
                (test_spec 0)) of
      Inl e \<Rightarrow> False
    | Inr (r, s) \<Rightarrow> r = Success \<and> js_codeSnippet (js_appendix s) = ''main();'')"
  by code_simp+

text \<open>
  The claim C5 as it is written, "the code-generation stage runs only after a breakdown
  whose shouldContinue is true", fails on a breakdown result whose \<^verbatim>\<open>shouldContinue\<close> is
  the string \<^verbatim>\<open>"false"\<close>: a string that is not empty is truthy, so \<^verbatim>\<open>invoke\<close> goes on,
  calls \<^verbatim>\<open>generateCode\<close>, sends the second request to the remote model and returns
  \<^verbatim>\<open>Success\<close> with the generated code.
\<close>

theorem rejected_breakdown_counterexample:
  "fst (userInputBreakdownTaskAsync (test_cg_env test_string_false test_code_answer [])
          test_request) = Some test_string_false_json
   \<and> get_prop test_string_false_json ''shouldContinue'' = Some (JString ''false'')
   \<and> Call_userInputBreakdownTaskAsync
       \<in> set (snd (invoke (test_cg_env test_string_false test_code_answer []) 0 1000
                      test_request (test_spec 0)))
   \<and> Call_generateCode
       \<in> set (snd (invoke (test_cg_env test_string_false test_code_answer []) 0 1000
                      test_request (test_spec 0)))
   \<and> requested_models
         (snd (invoke (test_cg_env test_string_false test_code_answer []) 0 1000 test_request
                 (test_spec 0))) = [''copilot-gpt-3.5-turbo'', ''copilot-gpt-3.5-turbo'']
   \<and> (case fst (invoke (test_cg_env test_string_false test_code_answer []) 0 1000
                    test_request (test_spec 0)) of
          Inl e \<Rightarrow> False
        | Inr (r, s) \<Rightarrow> r = Success \<and> js_codeSnippet (js_appendix s) = ''main();'')"
proof -
  have nsc: "\<not> falsy (get_prop test_string_false_json ''shouldContinue'')"
    by (simp add: test_values)
  note inv = invoke_continue [OF test_guard [of 0]
               test_string_false_result [of test_code_answer "[]"] test_values(13) nsc,
               of 0 1000]
  have gen: "Call_generateCode
       \<in> set (snd (invoke (test_cg_env test_string_false test_code_answer []) 0 1000
                      test_request (test_spec 0)))"
    unfolding inv
    by (rule generate_in_trace [where high = False]) (simp add: test_values js_ge_test)
  have "count_list (snd (invoke (test_cg_env test_string_false test_code_answer []) 0 1000
                      test_request (test_spec 0))) Call_userInputBreakdownTaskAsync = 1"
    using invoke_runs_breakdown_once [OF test_guard [of 0]] by blast
  then have ran: "Call_userInputBreakdownTaskAsync
       \<in> set (snd (invoke (test_cg_env test_string_false test_code_answer []) 0 1000
                      test_request (test_spec 0)))"
    using count_list_0_iff [of "snd (invoke (test_cg_env test_string_false test_code_answer [])
                      0 1000 test_request (test_spec 0))" Call_userInputBreakdownTaskAsync]
    by simp
  from gen ran test_string_false_run show ?thesis
    by (simp only: test_string_false_result test_values simp_thms)
qed

theorem breakdown_stage_always_runs_witness:
  "codeTaskBreakdown (appendix (test_spec 0)) = Some []
   \<and> breakdown_guard (test_spec 0) = Inr True
   \<and> count_list (snd (invoke (test_cg_env test_breakdown test_code_answer []) 0 1000
                         test_request (test_spec 0)))
       Call_userInputBreakdownTaskAsync = 1"
proof -
  have h: "codeTaskBreakdown (appendix (test_spec 0)) = Some []"
    by (simp add: test_spec_def)
  from breakdown_stage_always_runs
         [OF h, of "test_cg_env test_breakdown test_code_answer []" 0 1000 test_request]
  show ?thesis using h by simp
qed

end
